theory Spec2Isabelle
  imports Main
begin

section \<open>JavaScript values used by the gateway code\<close>

text \<open>
  A JavaScript string is truthy exactly when it is not empty; an optional string
  (\<open>string | undefined\<close>) is truthy when it is present and not empty.
\<close>

definition truthy :: "string option \<Rightarrow> bool" where
  "truthy s = (case s of None \<Rightarrow> False | Some k \<Rightarrow> k \<noteq> [])"

text \<open>
  \<open>Array.prototype.findIndex\<close>: the index of the first element satisfying the
  predicate, \<open>-1\<close> when there is none.
\<close>

fun findIndex :: "('a \<Rightarrow> bool) \<Rightarrow> 'a list \<Rightarrow> int" where
  "findIndex P [] = -1"
| "findIndex P (x # xs) =
     (if P x then 0
      else (let i = findIndex P xs in if i < 0 then -1 else i + 1))"

text \<open>
  \<open>const [entry] = queue.splice(idx, 1)\<close>: removes the element at \<open>idx\<close> in
  place and yields it; past the end nothing is removed and \<open>entry\<close> is undefined.
\<close>

definition splice1 :: "nat \<Rightarrow> 'a list \<Rightarrow> 'a option \<times> 'a list" where
  "splice1 idx xs =
     (case drop idx xs of
        [] \<Rightarrow> (None, xs)
      | e # rest \<Rightarrow> (Some e, take idx xs @ rest))"

section \<open>ChatRunRegistry\<close>

record ChatRunEntry =
  sessionKey :: string
  clientRunId :: string

text \<open>\<open>chatRunSessions\<close>: a \<open>Map\<close> from session id to an array of entries.\<close>

type_synonym ChatRunSessions = "string \<rightharpoonup> ChatRunEntry list"

definition createChatRunRegistry :: ChatRunSessions where
  "createChatRunRegistry = Map.empty"

definition chatRun_add :: "string \<Rightarrow> ChatRunEntry \<Rightarrow> ChatRunSessions \<Rightarrow> ChatRunSessions" where
  "chatRun_add sessionId entry chatRunSessions =
     (case chatRunSessions sessionId of
        Some queue \<Rightarrow> chatRunSessions(sessionId \<mapsto> queue @ [entry])
      | None \<Rightarrow> chatRunSessions(sessionId \<mapsto> [entry]))"

definition chatRun_peek :: "string \<Rightarrow> ChatRunSessions \<Rightarrow> ChatRunEntry option" where
  "chatRun_peek sessionId chatRunSessions =
     (case chatRunSessions sessionId of
        None \<Rightarrow> None
      | Some [] \<Rightarrow> None
      | Some (e # _) \<Rightarrow> Some e)"

definition chatRun_shift ::
  "string \<Rightarrow> ChatRunSessions \<Rightarrow> ChatRunEntry option \<times> ChatRunSessions" where
  "chatRun_shift sessionId chatRunSessions =
     (case chatRunSessions sessionId of
        None \<Rightarrow> (None, chatRunSessions)
      | Some [] \<Rightarrow> (None, chatRunSessions)
      | Some (entry # queue) \<Rightarrow>
          (Some entry,
           if length queue = 0 then chatRunSessions(sessionId := None)
           else chatRunSessions(sessionId \<mapsto> queue)))"

text \<open>The predicate handed to \<open>findIndex\<close> by \<open>remove\<close>.\<close>

definition removeMatches :: "string \<Rightarrow> string option \<Rightarrow> ChatRunEntry \<Rightarrow> bool" where
  "removeMatches cid sk entry =
     (clientRunId entry = cid \<and> (if truthy sk then Some (sessionKey entry) = sk else True))"

definition chatRun_remove ::
  "string \<Rightarrow> string \<Rightarrow> string option \<Rightarrow> ChatRunSessions
     \<Rightarrow> ChatRunEntry option \<times> ChatRunSessions" where
  "chatRun_remove sessionId cid sk chatRunSessions =
     (case chatRunSessions sessionId of
        None \<Rightarrow> (None, chatRunSessions)
      | Some queue \<Rightarrow>
          if length queue = 0 then (None, chatRunSessions)
          else (let idx = findIndex (removeMatches cid sk) queue in
            if idx < 0 then (None, chatRunSessions)
            else (let (entry, queue') = splice1 (nat idx) queue in
              (entry,
               if length queue' = 0 then chatRunSessions(sessionId := None)
               else chatRunSessions(sessionId \<mapsto> queue')))))"

definition chatRun_clear :: "ChatRunSessions \<Rightarrow> ChatRunSessions" where
  "chatRun_clear chatRunSessions = Map.empty"

text \<open>The pending entries of a session, oldest first (none when the queue is absent).\<close>

definition pending :: "ChatRunSessions \<Rightarrow> string \<Rightarrow> ChatRunEntry list" where
  "pending chatRunSessions sessionId =
     (case chatRunSessions sessionId of None \<Rightarrow> [] | Some queue \<Rightarrow> queue)"

text \<open>
  A caller's sequence of \<open>add\<close> and \<open>shift\<close> calls on one session, with the value each
  \<open>shift\<close> returned.
\<close>

datatype regOp = Add ChatRunEntry | Shift

fun runOps ::
  "string \<Rightarrow> regOp list \<Rightarrow> ChatRunSessions \<Rightarrow> ChatRunEntry option list \<times> ChatRunSessions" where
  "runOps sid [] m = ([], m)"
| "runOps sid (Add e # ops) m = runOps sid ops (chatRun_add sid e m)"
| "runOps sid (Shift # ops) m =
     (let (r, m') = chatRun_shift sid m; (rs, m'') = runOps sid ops m' in (r # rs, m''))"

fun added :: "regOp list \<Rightarrow> ChatRunEntry list" where
  "added [] = []"
| "added (Add e # ops) = e # added ops"
| "added (Shift # ops) = added ops"

fun returned :: "ChatRunEntry option list \<Rightarrow> ChatRunEntry list" where
  "returned [] = []"
| "returned (None # rs) = returned rs"
| "returned (Some e # rs) = e # returned rs"


text \<open>
  The first-in-first-out queue as the specification words it: \<open>add\<close> appends, \<open>shift\<close>
  yields the oldest pending entry, or nothing when none is pending.
\<close>

fun fifo_spec :: "regOp list \<Rightarrow> ChatRunEntry list \<Rightarrow> ChatRunEntry option list" where
  "fifo_spec [] q = []"
| "fifo_spec (Add e # ops) q = fifo_spec ops (q @ [e])"
| "fifo_spec (Shift # ops) [] = None # fifo_spec ops []"
| "fifo_spec (Shift # ops) (x # q) = Some x # fifo_spec ops q"

text \<open>Sample entries for the worked examples.\<close>

definition entryA :: ChatRunEntry where
  "entryA = \<lparr>sessionKey = ''k'', clientRunId = ''a''\<rparr>"

definition entryB :: ChatRunEntry where
  "entryB = \<lparr>sessionKey = ''k'', clientRunId = ''b''\<rparr>"

definition entryC :: ChatRunEntry where
  "entryC = \<lparr>sessionKey = ''k'', clientRunId = ''c''\<rparr>"

section \<open>ChatRunState\<close>

record ChatRunState =
  registry :: ChatRunSessions
  buffers :: "string \<rightharpoonup> string"
  deltaSentAt :: "string \<rightharpoonup> nat"
  abortedRuns :: "string \<rightharpoonup> nat"

definition createChatRunState :: ChatRunState where
  "createChatRunState =
     \<lparr>registry = createChatRunRegistry, buffers = Map.empty,
      deltaSentAt = Map.empty, abortedRuns = Map.empty\<rparr>"

definition chatRunState_clear :: "ChatRunState \<Rightarrow> ChatRunState" where
  "chatRunState_clear cs =
     \<lparr>registry = chatRun_clear (registry cs), buffers = Map.empty,
      deltaSentAt = Map.empty, abortedRuns = Map.empty\<rparr>"

section \<open>ToolEventRecipientRegistry\<close>

text \<open>
  Times are \<open>Date.now()\<close> readings: whole milliseconds since the epoch, a natural
  number. One registry call is a short synchronous body; the model reads the clock once
  per call (\<open>now\<close>).
  \<open>finalizedAt\<close> is optional; the code tests it for truthiness, and the number \<open>0\<close>
  is falsy.
\<close>

record ToolRecipientEntry =
  connIds :: "string set"
  updatedAt :: nat
  finalizedAt :: "nat option"

type_synonym Recipients = "string \<rightharpoonup> ToolRecipientEntry"

definition TOOL_EVENT_RECIPIENT_TTL_MS :: nat where
  "TOOL_EVENT_RECIPIENT_TTL_MS = 10 * 60 * 1000"

definition TOOL_EVENT_RECIPIENT_FINAL_GRACE_MS :: nat where
  "TOOL_EVENT_RECIPIENT_FINAL_GRACE_MS = 30 * 1000"

definition createToolEventRecipientRegistry :: Recipients where
  "createToolEventRecipientRegistry = Map.empty"

definition cutoff :: "ToolRecipientEntry \<Rightarrow> nat" where
  "cutoff entry =
     (case finalizedAt entry of
        Some f \<Rightarrow>
          if f \<noteq> 0 then f + TOOL_EVENT_RECIPIENT_FINAL_GRACE_MS
          else updatedAt entry + TOOL_EVENT_RECIPIENT_TTL_MS
      | None \<Rightarrow> updatedAt entry + TOOL_EVENT_RECIPIENT_TTL_MS)"

text \<open>
  \<open>prune\<close> visits every entry once and deletes those whose cutoff has passed; each
  decision depends on that entry alone. Its early return on an empty map changes
  nothing, so the model has no separate case for it.
\<close>

definition prune :: "nat \<Rightarrow> Recipients \<Rightarrow> Recipients" where
  "prune now recipients =
     (\<lambda>runId. case recipients runId of
        None \<Rightarrow> None
      | Some entry \<Rightarrow> if now \<ge> cutoff entry then None else Some entry)"

definition toolRecipients_add :: "nat \<Rightarrow> string \<Rightarrow> string \<Rightarrow> Recipients \<Rightarrow> Recipients" where
  "toolRecipients_add now runId connId recipients =
     (if runId = [] \<or> connId = [] then recipients
      else prune now
        (case recipients runId of
           Some existing \<Rightarrow>
             recipients(runId \<mapsto>
               existing\<lparr>connIds := insert connId (connIds existing), updatedAt := now\<rparr>)
         | None \<Rightarrow>
             recipients(runId \<mapsto>
               \<lparr>connIds = {connId}, updatedAt = now, finalizedAt = None\<rparr>)))"

definition toolRecipients_get ::
  "nat \<Rightarrow> string \<Rightarrow> Recipients \<Rightarrow> string set option \<times> Recipients" where
  "toolRecipients_get now runId recipients =
     (case recipients runId of
        None \<Rightarrow> (None, recipients)
      | Some entry \<Rightarrow>
          (Some (connIds entry),
           prune now (recipients(runId \<mapsto> entry\<lparr>updatedAt := now\<rparr>))))"

definition toolRecipients_markFinal :: "nat \<Rightarrow> string \<Rightarrow> Recipients \<Rightarrow> Recipients" where
  "toolRecipients_markFinal now runId recipients =
     (case recipients runId of
        None \<Rightarrow> recipients
      | Some entry \<Rightarrow> prune now (recipients(runId \<mapsto> entry\<lparr>finalizedAt := Some now\<rparr>)))"

text \<open>One call on the registry, as a caller issues it at some clock reading.\<close>

datatype toolOp = OpAdd string string | OpGet string | OpMarkFinal string

fun toolStep :: "nat \<Rightarrow> toolOp \<Rightarrow> Recipients \<Rightarrow> Recipients" where
  "toolStep now (OpAdd runId connId) recipients = toolRecipients_add now runId connId recipients"
| "toolStep now (OpGet runId) recipients = snd (toolRecipients_get now runId recipients)"
| "toolStep now (OpMarkFinal runId) recipients = toolRecipients_markFinal now runId recipients"

fun opRunId :: "toolOp \<Rightarrow> string" where
  "opRunId (OpAdd runId connId) = runId"
| "opRunId (OpGet runId) = runId"
| "opRunId (OpMarkFinal runId) = runId"

text \<open>
  Whether a call reaches \<open>prune()\<close>: \<open>add\<close> returns before it when an id is empty,
  \<open>get\<close> and \<open>markFinal\<close> when the run has no entry.
\<close>

fun sweeps :: "toolOp \<Rightarrow> Recipients \<Rightarrow> bool" where
  "sweeps (OpAdd runId connId) recipients = (runId \<noteq> [] \<and> connId \<noteq> [])"
| "sweeps (OpGet runId) recipients = (recipients runId \<noteq> None)"
| "sweeps (OpMarkFinal runId) recipients = (recipients runId \<noteq> None)"

text \<open>An entry counts as finalized when its \<open>finalizedAt\<close> is truthy.\<close>

definition isFinalized :: "ToolRecipientEntry \<Rightarrow> bool" where
  "isFinalized entry = (case finalizedAt entry of None \<Rightarrow> False | Some f \<Rightarrow> f \<noteq> 0)"

text \<open>A schedule of registry calls, each with the clock reading at which it runs.\<close>

fun runTool :: "(nat \<times> toolOp) list \<Rightarrow> Recipients \<Rightarrow> Recipients" where
  "runTool [] recipients = recipients"
| "runTool ((t, op) # rest) recipients = runTool rest (toolStep t op recipients)"

text \<open>
  A schedule in which the run \<open>runId\<close> is only read (\<open>get\<close>), and every call for another
  run comes less than the time-to-live after the latest read of \<open>runId\<close> (\<open>lastRead\<close>).
\<close>

fun readsInTime :: "string \<Rightarrow> nat \<Rightarrow> (nat \<times> toolOp) list \<Rightarrow> bool" where
  "readsInTime runId lastRead [] = True"
| "readsInTime runId lastRead ((t, op) # rest) =
     (if op = OpGet runId then readsInTime runId t rest
      else opRunId op \<noteq> runId \<and> t < lastRead + TOOL_EVENT_RECIPIENT_TTL_MS
           \<and> readsInTime runId lastRead rest)"

text \<open>A registry holding one subscriber for the run \<open>run\<close>, registered at time 1000.\<close>

definition recipients1 :: Recipients where
  "recipients1 = toolRecipients_add 1000 ''run'' ''conn'' createToolEventRecipientRegistry"




section \<open>Agent events, payloads and effects\<close>

text \<open>
  \<open>String.prototype.trim\<close> on strings of 8-bit characters: TAB, LF, VT, FF, CR, space
  and the no-break space are white space.
\<close>

definition isWhiteSpace :: "char \<Rightarrow> bool" where
  "isWhiteSpace c = ((of_char c :: nat) \<in> {9, 10, 11, 12, 13, 32, 160})"

definition trim :: "string \<Rightarrow> string" where
  "trim s = rev (dropWhile isWhiteSpace (rev (dropWhile isWhiteSpace s)))"

text \<open>
  The fields of \<open>evt.data\<close> the handler looks at. \<open>data_text\<close> and \<open>data_phase\<close> are
  present when the field is a string (\<open>typeof ... === "string"\<close>).
\<close>

record EventData =
  data_text :: "string option"
  data_phase :: "string option"
  data_error :: "string option"
  data_result :: "string option"
  data_partialResult :: "string option"

definition emptyData :: EventData where
  "emptyData = \<lparr>data_text = None, data_phase = None, data_error = None,
                 data_result = None, data_partialResult = None\<rparr>"

record AgentEvent =
  runId :: string
  seq :: int
  stream :: string
  data :: "EventData option"

record ChatMessage =
  role :: string
  content :: string
  timestamp :: nat

datatype ChatState = StateDelta | StateFinal | StateError

record ChatPayload =
  chat_runId :: string
  chat_sessionKey :: string
  chat_seq :: int
  chat_state :: ChatState
  chat_message :: "ChatMessage option"
  chat_errorMessage :: "string option"

text \<open>
  What is handed to the three output functions: the event itself with the session key
  attached when known, the synthetic sequence-gap error, or a chat payload.
\<close>

datatype Payload =
    AgentP AgentEvent "string option"
  | SeqGapP string nat "string option" int int
  | ChatP ChatPayload

text \<open>
  The calls the handler makes on its injected functions, in order. The flag of
  \<open>Broadcast\<close> is the \<open>dropIfSlow\<close> option.
\<close>

datatype Effect =
    Broadcast string Payload bool
  | BroadcastToConnIds string Payload "string set"
  | NodeSendToSession string string Payload
  | ClearAgentRunContext string

section \<open>External collaborators of the handler\<close>

record RunContext =
  isHeartbeat :: bool
  verboseLevel :: "string option"

text \<open>What \<open>loadSessionEntry\<close> yields: the entry's level and the configured default.\<close>

record SessionLookup =
  entryVerboseLevel :: "string option"
  verboseDefault :: "string option"

text \<open>
  The functions the handler imports or is constructed with. \<open>heartbeatShowOk\<close> is
  \<open>resolveHeartbeatVisibility(...).showOk\<close>, \<open>None\<close> when loading the configuration
  throws; \<open>loadSessionEntry\<close> yields \<open>None\<close> when it throws.
\<close>

record Env =
  getAgentRunContext :: "string \<Rightarrow> RunContext option"
  heartbeatShowOk :: "bool option"
  normalizeVerboseLevel :: "string option \<Rightarrow> string option"
  loadSessionEntry :: "string \<Rightarrow> SessionLookup option"
  resolveSessionKeyForRun :: "string \<Rightarrow> string option"
  formatForLog :: "string \<Rightarrow> string"

definition shouldSuppressHeartbeatBroadcast :: "Env \<Rightarrow> string \<Rightarrow> bool" where
  "shouldSuppressHeartbeatBroadcast env rid =
     (case getAgentRunContext env rid of
        None \<Rightarrow> False
      | Some runContext \<Rightarrow>
          if \<not> isHeartbeat runContext then False
          else (case heartbeatShowOk env of
                  Some showOk \<Rightarrow> \<not> showOk
                | None \<Rightarrow> True))"

section \<open>AgentEventHandler\<close>

record HandlerState =
  chatRunState :: ChatRunState
  agentRunSeq :: "string \<rightharpoonup> int"
  toolEventRecipients :: Recipients

definition deltaPayload :: "string \<Rightarrow> string \<Rightarrow> int \<Rightarrow> string \<Rightarrow> nat \<Rightarrow> Payload" where
  "deltaPayload sk cid sq txt now =
     ChatP \<lparr>chat_runId = cid, chat_sessionKey = sk, chat_seq = sq, chat_state = StateDelta,
            chat_message = Some \<lparr>role = ''assistant'', content = txt, timestamp = now\<rparr>,
            chat_errorMessage = None\<rparr>"

definition emitChatDelta ::
  "Env \<Rightarrow> nat \<Rightarrow> string \<Rightarrow> string \<Rightarrow> int \<Rightarrow> string \<Rightarrow> ChatRunState
     \<Rightarrow> ChatRunState \<times> Effect list" where
  "emitChatDelta env now sk cid sq txt cs =
     (let cs1 = cs\<lparr>buffers := (buffers cs)(cid \<mapsto> txt)\<rparr>;
          lastSent = (case deltaSentAt cs1 cid of Some t \<Rightarrow> t | None \<Rightarrow> 0)
      in if int now - int lastSent < 150 then (cs1, [])
         else (let cs2 = cs1\<lparr>deltaSentAt := (deltaSentAt cs1)(cid \<mapsto> now)\<rparr>;
                   payload = deltaPayload sk cid sq txt now
               in (cs2,
                   (if \<not> shouldSuppressHeartbeatBroadcast env cid
                    then [Broadcast ''chat'' payload True] else [])
                   @ [NodeSendToSession sk ''chat'' payload])))"

datatype JobState = JobDone | JobError

definition finalPayload :: "string \<Rightarrow> string \<Rightarrow> int \<Rightarrow> string \<Rightarrow> nat \<Rightarrow> Payload" where
  "finalPayload sk cid sq txt now =
     ChatP \<lparr>chat_runId = cid, chat_sessionKey = sk, chat_seq = sq, chat_state = StateFinal,
            chat_message =
              (if txt \<noteq> [] then Some \<lparr>role = ''assistant'', content = txt, timestamp = now\<rparr>
               else None),
            chat_errorMessage = None\<rparr>"

definition errorPayload :: "Env \<Rightarrow> string \<Rightarrow> string \<Rightarrow> int \<Rightarrow> string option \<Rightarrow> Payload" where
  "errorPayload env sk cid sq err =
     ChatP \<lparr>chat_runId = cid, chat_sessionKey = sk, chat_seq = sq, chat_state = StateError,
            chat_message = None,
            chat_errorMessage =
              (case err of
                 None \<Rightarrow> None
               | Some e \<Rightarrow> if e \<noteq> [] then Some (formatForLog env e) else None)\<rparr>"

definition emitChatFinal ::
  "Env \<Rightarrow> nat \<Rightarrow> string \<Rightarrow> string \<Rightarrow> int \<Rightarrow> JobState \<Rightarrow> string option \<Rightarrow> ChatRunState
     \<Rightarrow> ChatRunState \<times> Effect list" where
  "emitChatFinal env now sk cid sq jobState err cs =
     (let txt = (case buffers cs cid of Some b \<Rightarrow> trim b | None \<Rightarrow> []);
          cs1 = cs\<lparr>buffers := (buffers cs)(cid := None),
                   deltaSentAt := (deltaSentAt cs)(cid := None)\<rparr>
      in if jobState = JobDone then
           (let payload = finalPayload sk cid sq txt now
            in (cs1,
                (if \<not> shouldSuppressHeartbeatBroadcast env cid
                 then [Broadcast ''chat'' payload False] else [])
                @ [NodeSendToSession sk ''chat'' payload]))
         else
           (let payload = errorPayload env sk cid sq err
            in (cs1, [Broadcast ''chat'' payload False, NodeSendToSession sk ''chat'' payload])))"

definition resolveToolVerboseLevel :: "Env \<Rightarrow> string \<Rightarrow> string option \<Rightarrow> string" where
  "resolveToolVerboseLevel env rid sk =
     (let runVerbose =
            normalizeVerboseLevel env
              (case getAgentRunContext env rid of
                 None \<Rightarrow> None
               | Some runContext \<Rightarrow> verboseLevel runContext)
      in case (if truthy runVerbose then runVerbose else None) of
           Some v \<Rightarrow> v
         | None \<Rightarrow>
            (case (if truthy sk then sk else None) of
               None \<Rightarrow> ''off''
             | Some k \<Rightarrow>
                (case loadSessionEntry env k of
                   None \<Rightarrow> ''off''
                 | Some found \<Rightarrow>
                     (let sessionVerbose = normalizeVerboseLevel env (entryVerboseLevel found)
                      in case (if truthy sessionVerbose then sessionVerbose else None) of
                           Some v \<Rightarrow> v
                         | None \<Rightarrow>
                             (case normalizeVerboseLevel env (verboseDefault found) of
                                Some d \<Rightarrow> d
                              | None \<Rightarrow> ''off'')))))"

text \<open>Step 1 of the handler: correlate the event with a chat run.\<close>

definition chatLinkOf :: "AgentEvent \<Rightarrow> HandlerState \<Rightarrow> ChatRunEntry option" where
  "chatLinkOf evt s = chatRun_peek (runId evt) (registry (chatRunState s))"

definition sessionKeyOf :: "Env \<Rightarrow> AgentEvent \<Rightarrow> HandlerState \<Rightarrow> string option" where
  "sessionKeyOf env evt s =
     (case chatLinkOf evt s of
        Some chatLink \<Rightarrow> Some (sessionKey chatLink)
      | None \<Rightarrow> resolveSessionKeyForRun env (runId evt))"

definition clientRunIdOf :: "AgentEvent \<Rightarrow> HandlerState \<Rightarrow> string" where
  "clientRunIdOf evt s =
     (case chatLinkOf evt s of
        Some chatLink \<Rightarrow> clientRunId chatLink
      | None \<Rightarrow> runId evt)"

definition isAbortedOf :: "AgentEvent \<Rightarrow> HandlerState \<Rightarrow> bool" where
  "isAbortedOf evt s =
     (abortedRuns (chatRunState s) (clientRunIdOf evt s) \<noteq> None
      \<or> abortedRuns (chatRunState s) (runId evt) \<noteq> None)"

definition agentPayloadOf :: "AgentEvent \<Rightarrow> string option \<Rightarrow> Payload" where
  "agentPayloadOf evt sk = AgentP evt (if truthy sk then sk else None)"

text \<open>The tool payload below full verbosity: \<open>result\<close> and \<open>partialResult\<close> deleted.\<close>

definition strippedPayloadOf :: "AgentEvent \<Rightarrow> string option \<Rightarrow> Payload" where
  "strippedPayloadOf evt sk =
     (let d = (case data evt of Some d0 \<Rightarrow> d0 | None \<Rightarrow> emptyData);
          d' = d\<lparr>data_result := None, data_partialResult := None\<rparr>
      in AgentP (evt\<lparr>data := Some d'\<rparr>) (if truthy sk then sk else None))"

definition lifecyclePhaseOf :: "AgentEvent \<Rightarrow> string option" where
  "lifecyclePhaseOf evt =
     (if stream evt = ''lifecycle''
      then (case data evt of Some d \<Rightarrow> data_phase d | None \<Rightarrow> None)
      else None)"

definition isEndPhase :: "string option \<Rightarrow> bool" where
  "isEndPhase lifecyclePhase = (lifecyclePhase = Some ''end'' \<or> lifecyclePhase = Some ''error'')"

definition textOf :: "AgentEvent \<Rightarrow> string option" where
  "textOf evt = (case data evt of Some d \<Rightarrow> data_text d | None \<Rightarrow> None)"

definition errorOf :: "AgentEvent \<Rightarrow> string option" where
  "errorOf evt = (case data evt of Some d \<Rightarrow> data_error d | None \<Rightarrow> None)"

definition jobStateOf :: "string option \<Rightarrow> JobState" where
  "jobStateOf lifecyclePhase = (if lifecyclePhase = Some ''error'' then JobError else JobDone)"

text \<open>
  The body of \<open>if (sessionKey) { ... }\<close>: the session unicast of the event, then the
  chat assembly. The third component tells whether the handler returned from inside
  (the branch where \<open>shift\<close> yields nothing).
\<close>

definition sessionDelivery ::
  "Env \<Rightarrow> nat \<Rightarrow> AgentEvent \<Rightarrow> ChatRunEntry option \<Rightarrow> string \<Rightarrow> string \<Rightarrow> bool \<Rightarrow> Payload
     \<Rightarrow> ChatRunState \<Rightarrow> ChatRunState \<times> Effect list \<times> bool" where
  "sessionDelivery env now evt chatLink sk cid isAborted payload cs =
     (let send = [NodeSendToSession sk ''agent'' payload];
          lifecyclePhase = lifecyclePhaseOf evt
      in if \<not> isAborted \<and> stream evt = ''assistant'' \<and> textOf evt \<noteq> None then
           (case textOf evt of
              Some txt \<Rightarrow>
                (let (cs', effs) = emitChatDelta env now sk cid (seq evt) txt cs
                 in (cs', send @ effs, False))
            | None \<Rightarrow> (cs, send, False))
         else if \<not> isAborted \<and> isEndPhase lifecyclePhase then
           (case chatLink of
              Some link \<Rightarrow>
                (let (finished, reg') = chatRun_shift (runId evt) (registry cs);
                     cs1 = cs\<lparr>registry := reg'\<rparr>
                 in case finished of
                      None \<Rightarrow> (cs1, send @ [ClearAgentRunContext (runId evt)], True)
                    | Some f \<Rightarrow>
                        (let (cs2, effs) =
                               emitChatFinal env now (sessionKey f) (clientRunId f) (seq evt)
                                 (jobStateOf lifecyclePhase) (errorOf evt) cs1
                         in (cs2, send @ effs, False)))
            | None \<Rightarrow>
                (let (cs2, effs) =
                       emitChatFinal env now sk (runId evt) (seq evt)
                         (jobStateOf lifecyclePhase) (errorOf evt) cs
                 in (cs2, send @ effs, False)))
         else if isAborted \<and> isEndPhase lifecyclePhase then
           (let cs1 = cs\<lparr>abortedRuns := ((abortedRuns cs)(cid := None))(runId evt := None),
                         buffers := (buffers cs)(cid := None),
                         deltaSentAt := (deltaSentAt cs)(cid := None)\<rparr>;
                cs2 = (case chatLink of
                         Some link \<Rightarrow>
                           cs1\<lparr>registry :=
                                 snd (chatRun_remove (runId evt) cid (Some sk) (registry cs1))\<rparr>
                       | None \<Rightarrow> cs1)
            in (cs2, send, False))
         else (cs, send, False))"

text \<open>
  The handler from the fan-out on (after the sequence bookkeeping): fan-out, session
  delivery and chat assembly, cleanup.
\<close>

definition deliverEvent ::
  "Env \<Rightarrow> nat \<Rightarrow> AgentEvent \<Rightarrow> ChatRunEntry option \<Rightarrow> string option \<Rightarrow> string \<Rightarrow> bool
     \<Rightarrow> Payload \<Rightarrow> Payload \<Rightarrow> HandlerState \<Rightarrow> HandlerState \<times> Effect list" where
  "deliverEvent env now evt chatLink sk cid isAborted agentPayload toolPayload s1 =
     (let isToolEvent = (stream evt = ''tool'');
          (s2, fanout) =
            (if isToolEvent then
               (let (recipients, reg') =
                      toolRecipients_get now (runId evt) (toolEventRecipients s1)
                in (s1\<lparr>toolEventRecipients := reg'\<rparr>,
                    case recipients of
                      Some conns \<Rightarrow>
                        if conns \<noteq> {} then [BroadcastToConnIds ''agent'' toolPayload conns]
                        else []
                    | None \<Rightarrow> []))
             else (s1, [Broadcast ''agent'' agentPayload False]));
          lifecyclePhase = lifecyclePhaseOf evt;
          (cs', chat, returnedEarly) =
            (case (if truthy sk then sk else None) of
               Some k \<Rightarrow>
                 sessionDelivery env now evt chatLink k cid isAborted
                   (if isToolEvent then toolPayload else agentPayload) (chatRunState s2)
             | None \<Rightarrow> (chatRunState s2, [], False));
          s3 = s2\<lparr>chatRunState := cs'\<rparr>
      in if returnedEarly then (s3, fanout @ chat)
         else if isEndPhase lifecyclePhase then
           (s3\<lparr>toolEventRecipients :=
                 toolRecipients_markFinal now (runId evt) (toolEventRecipients s3)\<rparr>,
            fanout @ chat @ [ClearAgentRunContext (runId evt)])
         else (s3, fanout @ chat))"

definition seqGapBroadcast :: "nat \<Rightarrow> AgentEvent \<Rightarrow> string option \<Rightarrow> int \<Rightarrow> Effect" where
  "seqGapBroadcast now evt sk lastSeq =
     Broadcast ''agent'' (SeqGapP (runId evt) now sk (lastSeq + 1) (seq evt)) False"

text \<open>
  The handler returned by \<open>createAgentEventHandler\<close>, applied to one event at clock
  reading \<open>now\<close>: the new state and the calls made, in order.
\<close>

definition agentEventHandler ::
  "Env \<Rightarrow> nat \<Rightarrow> AgentEvent \<Rightarrow> HandlerState \<Rightarrow> HandlerState \<times> Effect list" where
  "agentEventHandler env now evt s =
     (let chatLink = chatLinkOf evt s;
          sk = sessionKeyOf env evt s;
          cid = clientRunIdOf evt s;
          isAborted = isAbortedOf evt s;
          agentPayload = agentPayloadOf evt sk;
          lastSeq = (case agentRunSeq s (runId evt) of Some n \<Rightarrow> n | None \<Rightarrow> 0);
          isToolEvent = (stream evt = ''tool'');
          toolVerbose =
            (if isToolEvent then resolveToolVerboseLevel env (runId evt) sk else ''off'')
      in if isToolEvent \<and> toolVerbose = ''off'' then
           (s\<lparr>agentRunSeq := (agentRunSeq s)(runId evt \<mapsto> seq evt)\<rparr>, [])
         else
           (let toolPayload =
                  (if isToolEvent \<and> toolVerbose \<noteq> ''full'' then strippedPayloadOf evt sk
                   else agentPayload);
                gap = (if seq evt \<noteq> lastSeq + 1 then [seqGapBroadcast now evt sk lastSeq]
                       else []);
                s1 = s\<lparr>agentRunSeq := (agentRunSeq s)(runId evt \<mapsto> seq evt)\<rparr>;
                (s', effs) =
                  deliverEvent env now evt chatLink sk cid isAborted agentPayload toolPayload s1
            in (s', gap @ effs)))"

text \<open>The calls that carry a chat payload, and the general broadcasts among them.\<close>

fun isChat :: "Effect \<Rightarrow> bool" where
  "isChat (Broadcast ev p d) = (ev = ''chat'')"
| "isChat (BroadcastToConnIds ev p c) = (ev = ''chat'')"
| "isChat (NodeSendToSession k ev p) = (ev = ''chat'')"
| "isChat (ClearAgentRunContext r) = False"

fun isChatBroadcast :: "Effect \<Rightarrow> bool" where
  "isChatBroadcast (Broadcast ev p d) = (ev = ''chat'')"
| "isChatBroadcast (BroadcastToConnIds ev p c) = False"
| "isChatBroadcast (NodeSendToSession k ev p) = False"
| "isChatBroadcast (ClearAgentRunContext r) = False"


text \<open>
  The gate of the handler: a tool event whose resolved verbosity is \<open>off\<close> is
  suppressed, every other event is not.
\<close>

definition notSuppressed :: "Env \<Rightarrow> AgentEvent \<Rightarrow> HandlerState \<Rightarrow> bool" where
  "notSuppressed env evt s =
     (\<not> (stream evt = ''tool''
         \<and> resolveToolVerboseLevel env (runId evt) (sessionKeyOf env evt s) = ''off''))"

text \<open>The recorded sequence number of the event's run, 0 when there is none.\<close>

definition lastSeqOf :: "AgentEvent \<Rightarrow> HandlerState \<Rightarrow> int" where
  "lastSeqOf evt s = (case agentRunSeq s (runId evt) of Some n \<Rightarrow> n | None \<Rightarrow> 0)"

text \<open>The same state, had the previous sequence number been the one just before the event's.\<close>

definition withLastSeq :: "AgentEvent \<Rightarrow> HandlerState \<Rightarrow> HandlerState" where
  "withLastSeq evt s = s\<lparr>agentRunSeq := (agentRunSeq s)(runId evt \<mapsto> seq evt - 1)\<rparr>"

text \<open>
  The throttle of \<open>emitChatDelta\<close>: the recorded time of the last delta broadcast
  (\<open>?? 0\<close> when none is recorded) and whether at least 150 ms have passed since.
\<close>

definition lastDeltaSentAt :: "ChatRunState \<Rightarrow> string \<Rightarrow> nat" where
  "lastDeltaSentAt cs cid = (case deltaSentAt cs cid of Some t \<Rightarrow> t | None \<Rightarrow> 0)"

definition throttleOpen :: "nat \<Rightarrow> ChatRunState \<Rightarrow> string \<Rightarrow> bool" where
  "throttleOpen now cs cid = (\<not> int now - int (lastDeltaSentAt cs cid) < 150)"

fun isSeqGap :: "Effect \<Rightarrow> bool" where
  "isSeqGap (Broadcast ev (SeqGapP r t k e x) d) = True"
| "isSeqGap e = False"

section \<open>Sample environment, states and events\<close>

definition normalize0 :: "string option \<Rightarrow> string option" where
  "normalize0 v =
     (case v of
        None \<Rightarrow> None
      | Some x \<Rightarrow> if x = ''off'' \<or> x = ''on'' \<or> x = ''full'' then Some x else None)"

text \<open>
  An environment without run contexts, in which every run resolves to the session key
  \<open>sk\<close> and no verbosity is configured.
\<close>

definition env0 :: Env where
  "env0 = \<lparr>getAgentRunContext = (\<lambda>r. None), heartbeatShowOk = Some True,
           normalizeVerboseLevel = normalize0,
           loadSessionEntry = (\<lambda>k. Some \<lparr>entryVerboseLevel = None, verboseDefault = None\<rparr>),
           resolveSessionKeyForRun = (\<lambda>r. Some ''sk''),
           formatForLog = (\<lambda>e. e)\<rparr>"

text \<open>The same, with every run a heartbeat run and successful heartbeats hidden.\<close>

definition envHeartbeat :: Env where
  "envHeartbeat =
     env0\<lparr>getAgentRunContext := (\<lambda>r. Some \<lparr>isHeartbeat = True, verboseLevel = None\<rparr>),
          heartbeatShowOk := Some False\<rparr>"

definition state0 :: HandlerState where
  "state0 = \<lparr>chatRunState = createChatRunState, agentRunSeq = Map.empty,
             toolEventRecipients = createToolEventRecipientRegistry\<rparr>"

text \<open>The state in which sequence number 3 was the last one seen for the run \<open>run\<close>.\<close>

definition stateSeq3 :: HandlerState where
  "stateSeq3 = state0\<lparr>agentRunSeq := [''run'' \<mapsto> 3]\<rparr>"

definition toolEvent5 :: AgentEvent where
  "toolEvent5 = \<lparr>runId = ''run'', seq = 5, stream = ''tool'', data = None\<rparr>"

definition assistantEvent :: "int \<Rightarrow> string \<Rightarrow> AgentEvent" where
  "assistantEvent n txt =
     \<lparr>runId = ''run'', seq = n, stream = ''assistant'',
      data = Some (emptyData\<lparr>data_text := Some txt\<rparr>)\<rparr>"

definition lifecycleEvent :: "int \<Rightarrow> string \<Rightarrow> AgentEvent" where
  "lifecycleEvent n ph =
     \<lparr>runId = ''run'', seq = n, stream = ''lifecycle'',
      data = Some (emptyData\<lparr>data_phase := Some ph\<rparr>)\<rparr>"

text \<open>
  A streamed reply: \<open>Hello\<close> arrives at time 1000, \<open>Hello wor\<close> 100 ms later.
\<close>

definition stateAfterHello :: HandlerState where
  "stateAfterHello = fst (agentEventHandler env0 1000 (assistantEvent 4 ''Hello'') stateSeq3)"

definition stateAfterSecond :: HandlerState where
  "stateAfterSecond =
     fst (agentEventHandler env0 1100 (assistantEvent 5 ''Hello wor'') stateAfterHello)"

text \<open>
  A chat-originated run: the agent run \<open>run\<close> is correlated with the client run
  \<open>client1\<close> of session \<open>sk\<close>, and some text is buffered for it.
\<close>

definition chatLink1 :: ChatRunEntry where
  "chatLink1 = \<lparr>sessionKey = ''sk'', clientRunId = ''client1''\<rparr>"

definition stateChat :: HandlerState where
  "stateChat =
     \<lparr>chatRunState =
        \<lparr>registry = [''run'' \<mapsto> [chatLink1]],
         buffers = [''client1'' \<mapsto> '' Hi there  ''],
         deltaSentAt = [''client1'' \<mapsto> 900],
         abortedRuns = Map.empty\<rparr>,
      agentRunSeq = [''run'' \<mapsto> 3],
      toolEventRecipients = createToolEventRecipientRegistry\<rparr>"

text \<open>The text buffered for a client run, trimmed; empty when nothing is buffered.\<close>

definition trimmedBuffer :: "ChatRunState \<Rightarrow> string \<Rightarrow> string" where
  "trimmedBuffer cs cid = (case buffers cs cid of Some b \<Rightarrow> trim b | None \<Rightarrow> [])"

text \<open>
  The same run marked aborted under its client run id, with the correlation entry
  queued twice.
\<close>

definition stateAbortedTwice :: HandlerState where
  "stateAbortedTwice =
     stateChat\<lparr>chatRunState :=
       (chatRunState stateChat)\<lparr>registry := [''run'' \<mapsto> [chatLink1, chatLink1]],
                                 abortedRuns := [''client1'' \<mapsto> 500]\<rparr>\<rparr>"

text \<open>The run marked aborted under its raw run id, with one correlation entry.\<close>

definition stateAborted :: HandlerState where
  "stateAborted =
     stateChat\<lparr>chatRunState :=
       (chatRunState stateChat)\<lparr>abortedRuns := [''run'' \<mapsto> 500]\<rparr>\<rparr>"

section \<open>ChannelMessageHandler\<close>

text \<open>
  The session-store entry as the channel handler reads and writes it. \<open>sendPolicy\<close>,
  \<open>contextTokens\<close>, \<open>model\<close>, \<open>modelProvider\<close> and \<open>sessionFile\<close> may be missing.
\<close>

record SessionEntry =
  sessionId :: string
  entryUpdatedAt :: nat
  systemSent :: bool
  abortedLastRun :: bool
  inputTokens :: int
  outputTokens :: int
  totalTokens :: int
  label :: string
  originType :: string
  lastChannel :: string
  lastTo :: string
  sendPolicy :: "string option"
  contextTokens :: "int option"
  model :: "string option"
  modelProvider :: "string option"
  sessionFile :: "string option"

type_synonym SessionStore = "string \<rightharpoonup> SessionEntry"

record SessionDefaults =
  defaultContextTokens :: "int option"
  defaultModel :: "string option"
  defaultModelProvider :: "string option"

record StoreTarget =
  storePath :: string
  storeKeys :: "string list"

record ChannelMessage =
  msg_id :: "string option"
  msg_from :: string
  msg_text :: string

text \<open>
  A transcript file is a list of JSON lines: the session header, then message records
  (id, role, text, timestamp, stop reason).
\<close>

datatype TranscriptLine =
    SessionHeader string nat
  | MessageLine string string string nat "string option"

type_synonym Files = "string \<rightharpoonup> TranscriptLine list"

text \<open>
  What the handler takes from outside for one inbound message: the injected resolver
  and callback, the session-store target, the session defaults, the two random ids, the
  transcript path \<open>path.join(path.dirname(storePath), sessionId + ".jsonl")\<close>, whether
  creating and appending to a file succeed, the calls the reply dispatcher makes on
  \<open>deliver\<close> (kind and \<open>payload.text\<close>) before \<open>dispatchInboundMessage\<close> settles, and
  whether that call throws. \<open>updateSessionStore\<close> is taken by its contract: it runs
  the mutator on the store and keeps the result.
\<close>

record ChannelEnv =
  resolveSessionKey :: "string \<Rightarrow> string \<Rightarrow> string"
  resolveGatewaySessionStoreTarget :: "string \<Rightarrow> StoreTarget"
  getSessionDefaults :: SessionDefaults
  randomUUID :: string
  randomMessageId :: string
  transcriptPathOf :: "string \<Rightarrow> string \<Rightarrow> string"
  canCreate :: "string \<Rightarrow> bool"
  canAppend :: "string \<Rightarrow> bool"
  deliveries :: "(string \<times> string option) list"
  dispatchThrows :: bool
  hasOnReply :: bool

definition ensureTranscriptFile ::
  "ChannelEnv \<Rightarrow> nat \<Rightarrow> string \<Rightarrow> string \<Rightarrow> Files \<Rightarrow> bool \<times> Files" where
  "ensureTranscriptFile env now transcriptPath sid files =
     (if files transcriptPath \<noteq> None then (True, files)
      else if canCreate env transcriptPath
        then (True, files(transcriptPath \<mapsto> [SessionHeader sid now]))
        else (False, files))"

definition appendTranscriptMessage ::
  "ChannelEnv \<Rightarrow> nat \<Rightarrow> string \<Rightarrow> string \<Rightarrow> string \<Rightarrow> string \<Rightarrow> string option \<Rightarrow> Files
     \<Rightarrow> bool \<times> Files" where
  "appendTranscriptMessage env now msgRole message sid path sessFile files =
     (if path = [] then (False, files)
      else
        (let transcriptPath =
               (case (if truthy sessFile then sessFile else None) of
                  Some f \<Rightarrow> f
                | None \<Rightarrow> transcriptPathOf env path sid);
             (ensured, files1) =
               (if files transcriptPath = None
                then ensureTranscriptFile env now transcriptPath sid files
                else (True, files))
         in if \<not> ensured then (False, files1)
            else
              (let line = MessageLine (randomMessageId env) msgRole message now
                            (if msgRole = ''assistant'' then Some ''injected'' else None)
               in if canAppend env transcriptPath
                  then (case files1 transcriptPath of
                          Some ls \<Rightarrow> (True, files1(transcriptPath \<mapsto> ls @ [line]))
                        | None \<Rightarrow> (True, files1(transcriptPath \<mapsto> [line])))
                  else (False, files1))))"

text \<open>The entry synthesized for a session key without one.\<close>

definition newSessionEntry :: "ChannelEnv \<Rightarrow> nat \<Rightarrow> string \<Rightarrow> ChannelMessage \<Rightarrow> SessionEntry" where
  "newSessionEntry env now channelId msg =
     \<lparr>sessionId = randomUUID env,
      entryUpdatedAt = now,
      systemSent = False,
      abortedLastRun = False,
      inputTokens = 0,
      outputTokens = 0,
      totalTokens = 0,
      label = ''Channel '' @ msg_from msg,
      originType = ''user'',
      lastChannel = channelId,
      lastTo = msg_from msg,
      sendPolicy = Some ''allow'',
      contextTokens = defaultContextTokens (getSessionDefaults env),
      model = defaultModel (getSessionDefaults env),
      modelProvider = defaultModelProvider (getSessionDefaults env),
      sessionFile = None\<rparr>"

text \<open>
  The mutator handed to \<open>updateSessionStore\<close>: the new store, and the \<open>sessionId\<close> and
  \<open>sessionFile\<close> it assigns to the handler's variables.
\<close>

definition ensureSessionEntry ::
  "ChannelEnv \<Rightarrow> nat \<Rightarrow> string \<Rightarrow> string \<Rightarrow> StoreTarget \<Rightarrow> ChannelMessage \<Rightarrow> SessionStore
     \<Rightarrow> SessionStore \<times> string \<times> string option" where
  "ensureSessionEntry env now channelId sk target msg store =
     (let primaryKey = (case storeKeys target of k # ks \<Rightarrow> k | [] \<Rightarrow> sk);
          existingKey = find (\<lambda>candidate. store candidate \<noteq> None) (storeKeys target);
          existing =
            (case (if truthy existingKey then existingKey else None) of
               Some k \<Rightarrow> (case store k of Some e \<Rightarrow> Some (k, e) | None \<Rightarrow> None)
             | None \<Rightarrow> None)
      in case existing of
           None \<Rightarrow>
             (let entry = newSessionEntry env now channelId msg
              in (store(primaryKey \<mapsto> entry), sessionId entry, sessionFile entry))
         | Some (k, e) \<Rightarrow>
             (let entry =
                    e\<lparr>entryUpdatedAt := now, lastChannel := channelId, lastTo := msg_from msg,
                      sendPolicy :=
                        (if \<not> truthy (sendPolicy e) \<or> sendPolicy e = Some ''auto''
                         then Some ''allow'' else sendPolicy e)\<rparr>
              in (store(k \<mapsto> entry), sessionId entry, sessionFile entry)))"

text \<open>
  The \<open>deliver\<close> callback over the dispatcher's calls: only \<open>final\<close> payloads count,
  their text is trimmed, and empty results are dropped.
\<close>

fun collectFinal :: "(string \<times> string option) list \<Rightarrow> string list" where
  "collectFinal [] = []"
| "collectFinal ((kind, payloadText) # rest) =
     (if kind \<noteq> ''final'' then collectFinal rest
      else (let txt = (case payloadText of Some t \<Rightarrow> trim t | None \<Rightarrow> [])
            in if txt \<noteq> [] then txt # collectFinal rest else collectFinal rest))"

text \<open>\<open>Array.prototype.join\<close>.\<close>

fun joinWith :: "string \<Rightarrow> string list \<Rightarrow> string" where
  "joinWith sep [] = []"
| "joinWith sep [x] = x"
| "joinWith sep (x # y # ys) = x @ sep @ joinWith sep (y # ys)"

definition blankLine :: string where
  "blankLine = [CHR 0x0A, CHR 0x0A]"

text \<open>
  One inbound message: the new session store, the new files, and the calls made on
  \<open>onReply\<close> (channel id, account id, recipient, text).
\<close>

definition channelMessageHandler ::
  "ChannelEnv \<Rightarrow> nat \<Rightarrow> string \<Rightarrow> string \<Rightarrow> ChannelMessage \<Rightarrow> SessionStore \<Rightarrow> Files
     \<Rightarrow> SessionStore \<times> Files \<times> (string \<times> string \<times> string \<times> string) list" where
  "channelMessageHandler env now channelId accountId msg store files =
     (let sk = resolveSessionKey env channelId (msg_from msg);
          target = resolveGatewaySessionStoreTarget env sk;
          (store', sid, sessFile) = ensureSessionEntry env now channelId sk target msg store
      in if sid = [] then (store', files, [])
         else
           (let (ok, files') =
                  appendTranscriptMessage env now ''user'' (msg_text msg) sid
                    (storePath target) sessFile files;
                finalReplyParts = collectFinal (deliveries env)
            in if dispatchThrows env then (store', files', [])
               else if length finalReplyParts > 0 then
                 (let replyText = joinWith blankLine finalReplyParts
                  in if hasOnReply env
                     then (store', files', [(channelId, accountId, msg_from msg, replyText)])
                     else (store', files', []))
               else (store', files', [])))"

text \<open>
  An inbound message \<open>hi\<close> from \<open>wallet-abc\<close> on an empty store, with a writable
  transcript and a dispatcher that delivers the given payloads.
\<close>

definition channelEnv :: "(string \<times> string option) list \<Rightarrow> ChannelEnv" where
  "channelEnv ds =
     \<lparr>resolveSessionKey = (\<lambda>channel sender. channel @ '':'' @ sender),
      resolveGatewaySessionStoreTarget =
        (\<lambda>k. \<lparr>storePath = ''/store/sessions.json'', storeKeys = [k]\<rparr>),
      getSessionDefaults =
        \<lparr>defaultContextTokens = None, defaultModel = None, defaultModelProvider = None\<rparr>,
      randomUUID = ''uuid-1'',
      randomMessageId = ''msg-1'',
      transcriptPathOf = (\<lambda>p sid. ''/store/'' @ sid @ ''.jsonl''),
      canCreate = (\<lambda>p. True),
      canAppend = (\<lambda>p. True),
      deliveries = ds,
      dispatchThrows = False,
      hasOnReply = True\<rparr>"

definition walletMessage :: ChannelMessage where
  "walletMessage = \<lparr>msg_id = None, msg_from = ''wallet-abc'', msg_text = ''hi''\<rparr>"

text \<open>The same environment when appending to a file fails.\<close>

definition channelEnvNoAppend :: "(string \<times> string option) list \<Rightarrow> ChannelEnv" where
  "channelEnvNoAppend ds = (channelEnv ds)\<lparr>canAppend := (\<lambda>p. False)\<rparr>"

section \<open>Properties of the ChatRunRegistry\<close>

lemma pending_add: "pending (chatRun_add sid e m) sid = pending m sid @ [e]"
  by (simp add: chatRun_add_def pending_def split: option.splits)

lemma pending_shift: "pending (snd (chatRun_shift sid m)) sid = tl (pending m sid)"
  by (auto simp: chatRun_shift_def pending_def split: option.splits list.splits)

lemma returned_shift: "returned [fst (chatRun_shift sid m)] = take 1 (pending m sid)"
  by (auto simp: chatRun_shift_def pending_def split: option.splits list.splits)

lemma add_nonempty: "chatRun_add sid e m sid \<noteq> Some []"
  by (simp add: chatRun_add_def split: option.splits)

lemma shift_nonempty: "m sid \<noteq> Some [] \<Longrightarrow> snd (chatRun_shift sid m) sid \<noteq> Some []"
  by (auto simp: chatRun_shift_def split: option.splits list.splits)

text \<open>What one \<open>shift\<close> does, read off the pending entries.\<close>

lemma shift_step:
  assumes "chatRun_shift sid m = (r, m1)"
  shows "(pending m sid = [] \<longrightarrow> r = None) \<and>
         (\<forall>a q. pending m sid = a # q \<longrightarrow> r = Some a) \<and>
         pending m1 sid = tl (pending m sid)"
proof -
  have p: "pending m1 sid = tl (pending m sid)"
    using pending_shift[of sid m] assms by simp
  have r1: "returned [r] = take 1 (pending m sid)"
    using returned_shift[of sid m] assms by simp
  have n: "pending m sid = [] \<longrightarrow> r = None"
    using r1 by (cases r) auto
  have c: "\<forall>a q. pending m sid = a # q \<longrightarrow> r = Some a"
    using r1 by (cases r) auto
  from p n c show ?thesis by blast
qed

lemma runOps_fifo:
  "runOps sid ops m = (outs, m') \<Longrightarrow>
     returned outs @ pending m' sid = pending m sid @ added ops"
proof (induction sid ops m arbitrary: outs m' rule: runOps.induct)
  case (1 sid m)
  then show ?case by simp
next
  case (2 sid e ops m)
  then show ?case by (simp add: pending_add)
next
  case (3 sid ops m)
  obtain r m1 where s: "chatRun_shift sid m = (r, m1)" by (cases "chatRun_shift sid m")
  obtain rs m2 where r: "runOps sid ops m1 = (rs, m2)" by (cases "runOps sid ops m1")
  from "3.prems" s r have o: "outs = r # rs" "m' = m2" by auto
  have ih: "returned rs @ pending m2 sid = pending m1 sid @ added ops"
    using "3.IH"[OF s[symmetric] refl r] by simp
  note st = shift_step[OF s]
  show ?case
  proof (cases "pending m sid")
    case Nil
    with st ih o show ?thesis by simp
  next
    case (Cons a q)
    with st have "r = Some a" by blast
    with st ih Cons o show ?thesis by simp
  qed
qed

lemma runOps_refines:
  "runOps sid ops m = (outs, m') \<Longrightarrow> outs = fifo_spec ops (pending m sid)"
proof (induction sid ops m arbitrary: outs m' rule: runOps.induct)
  case (1 sid m)
  then show ?case by simp
next
  case (2 sid e ops m)
  then show ?case by (simp add: pending_add)
next
  case (3 sid ops m)
  obtain r m1 where s: "chatRun_shift sid m = (r, m1)" by (cases "chatRun_shift sid m")
  obtain rs m2 where r: "runOps sid ops m1 = (rs, m2)" by (cases "runOps sid ops m1")
  from "3.prems" s r have o: "outs = r # rs" "m' = m2" by auto
  have ih: "rs = fifo_spec ops (pending m1 sid)"
    using "3.IH"[OF s[symmetric] refl r] by simp
  note st = shift_step[OF s]
  show ?case
  proof (cases "pending m sid")
    case Nil
    with st ih o show ?thesis by simp
  next
    case (Cons a q)
    with st have "r = Some a" by blast
    with st ih Cons o show ?thesis by simp
  qed
qed

lemma runOps_inv:
  "runOps sid ops m = (outs, m') \<Longrightarrow> m sid \<noteq> Some [] \<Longrightarrow> m' sid \<noteq> Some []"
proof (induction sid ops m arbitrary: outs m' rule: runOps.induct)
  case (1 sid m)
  then show ?case by simp
next
  case (2 sid e ops m)
  then show ?case using add_nonempty by simp
next
  case (3 sid ops m)
  obtain r m1 where s: "chatRun_shift sid m = (r, m1)" by (cases "chatRun_shift sid m")
  obtain rs m2 where r: "runOps sid ops m1 = (rs, m2)" by (cases "runOps sid ops m1")
  from "3.prems" s r have o: "outs = r # rs" "m' = m2" by auto
  have "m1 sid \<noteq> Some []" using shift_nonempty[of m sid, OF "3.prems"(2)] s by simp
  then show ?case using "3.IH"[OF s[symmetric] refl r] o by simp
qed

text \<open>
  Claim C8. Take any sequence of \<open>add\<close> and \<open>shift\<close> calls on one session, started in a
  registry whose queue for that session is absent or non-empty (the registry never
  stores an empty queue: \<open>createChatRunRegistry\<close> starts with none, and \<open>shift\<close>
  deletes a queue it empties). Then the values the \<open>shift\<close> calls return are those of a
  first-in-first-out queue: each \<open>shift\<close> returns the oldest entry not yet returned, and
  nothing when no entry is pending; in order, the returned entries followed by the
  entries still pending are the entries pending at the start followed by the added
  ones. Whenever no entry is pending afterwards, the session has no queue in the map,
  and \<open>peek\<close> returns nothing.
\<close>

theorem chatRun_add_shift_fifo:
  assumes run: "runOps sid ops m = (outs, m')" and inv: "m sid \<noteq> Some []"
  shows "outs = fifo_spec ops (pending m sid)
       \<and> returned outs @ pending m' sid = pending m sid @ added ops
       \<and> (pending m' sid = [] \<longrightarrow> m' sid = None \<and> chatRun_peek sid m' = None)"
proof -
  have a: "outs = fifo_spec ops (pending m sid)" using runOps_refines[OF run] .
  have b: "returned outs @ pending m' sid = pending m sid @ added ops"
    using runOps_fifo[OF run] .
  have c: "m' sid \<noteq> Some []" using runOps_inv[OF run inv] .
  have d: "pending m' sid = [] \<longrightarrow> m' sid = None \<and> chatRun_peek sid m' = None"
    using c by (auto simp: pending_def chatRun_peek_def split: option.splits)
  from a b d show ?thesis by blast
qed

text \<open>
  Two entries are added to a fresh registry and three \<open>shift\<close> calls follow: the
  entries come back in the order added, the third call returns nothing, the queue is
  gone and \<open>peek\<close> returns nothing.
\<close>

theorem chatRun_add_shift_fifo_witness:
  "createChatRunRegistry ''s'' \<noteq> Some []
   \<and> fst (runOps ''s'' [Add entryA, Add entryB, Shift, Shift, Shift] createChatRunRegistry)
        = [Some entryA, Some entryB, None]
   \<and> snd (runOps ''s'' [Add entryA, Add entryB, Shift, Shift, Shift] createChatRunRegistry) ''s''
        = None
   \<and> chatRun_peek ''s''
        (snd (runOps ''s'' [Add entryA, Add entryB, Shift, Shift, Shift] createChatRunRegistry))
        = None"
proof -
  define r where
    "r = runOps ''s'' [Add entryA, Add entryB, Shift, Shift, Shift] createChatRunRegistry"
  have run: "runOps ''s'' [Add entryA, Add entryB, Shift, Shift, Shift] createChatRunRegistry
               = (fst r, snd r)"
    unfolding r_def by simp
  have inv: "createChatRunRegistry ''s'' \<noteq> Some []"
    by (simp add: createChatRunRegistry_def)
  have p0: "pending createChatRunRegistry ''s'' = []"
    by (simp add: createChatRunRegistry_def pending_def)
  note th = chatRun_add_shift_fifo[OF run inv, unfolded p0]
  from th have a: "fst r = [Some entryA, Some entryB, None]" by simp
  from th a have "pending (snd r) ''s'' = []" by simp
  with th a inv show ?thesis unfolding r_def[symmetric] by simp
qed

lemma findIndex_none: "\<forall>x\<in>set xs. \<not> P x \<Longrightarrow> findIndex P xs = -1"
  by (induction xs) (auto simp: Let_def)

lemma findIndex_first:
  "\<forall>x\<in>set xs. \<not> P x \<Longrightarrow> P e \<Longrightarrow> findIndex P (xs @ e # ys) = int (length xs)"
  by (induction xs) (auto simp: Let_def)

lemma splice1_at: "splice1 (length xs) (xs @ e # ys) = (Some e, xs @ ys)"
  by (simp add: splice1_def)

lemma removeMatches_iff:
  "removeMatches cid sk e \<longleftrightarrow>
     clientRunId e = cid \<and>
     (case sk of None \<Rightarrow> True | Some k \<Rightarrow> k = [] \<or> sessionKey e = k)"
  by (auto simp: removeMatches_def truthy_def split: option.splits)

lemma remove_hit:
  assumes "m sid = Some (xs @ e # ys)"
    and "\<forall>x\<in>set xs. \<not> removeMatches cid sk x"
    and "removeMatches cid sk e"
  shows "chatRun_remove sid cid sk m =
           (Some e, if xs @ ys = [] then m(sid := None) else m(sid \<mapsto> xs @ ys))"
  using assms findIndex_first[of xs "removeMatches cid sk" e ys]
  by (simp add: chatRun_remove_def splice1_at)

lemma remove_miss:
  assumes "\<forall>x\<in>set (pending m sid). \<not> removeMatches cid sk x"
  shows "chatRun_remove sid cid sk m = (None, m)"
  using assms findIndex_none[of "pending m sid" "removeMatches cid sk"]
  by (auto simp: chatRun_remove_def pending_def split: option.splits)

text \<open>
  Claim C9. \<open>remove(sessionId, clientRunId, sessionKey?)\<close> looks for the first entry of
  the session's queue whose \<open>clientRunId\<close> is the given one and, when a session key is
  given, whose \<open>sessionKey\<close> equals it (the code tests the argument for truthiness, so
  an empty string counts as not given). When the queue is \<open>xs @ e # ys\<close> with \<open>e\<close> that
  first match, \<open>remove\<close> returns \<open>e\<close> and the queue becomes \<open>xs @ ys\<close>: the entries
  before and after keep their order, whatever the position of \<open>e\<close>; the queue is deleted
  from the map when nothing is left, and no other session changes. When no pending
  entry matches, \<open>remove\<close> returns nothing and the registry is unchanged.
\<close>

theorem chatRun_remove_first_match:
  "(removeMatches cid sk e \<longleftrightarrow>
      clientRunId e = cid \<and>
      (case sk of None \<Rightarrow> True | Some k \<Rightarrow> k = [] \<or> sessionKey e = k))
   \<and> (m sid = Some (xs @ e # ys) \<and> (\<forall>x\<in>set xs. \<not> removeMatches cid sk x)
        \<and> removeMatches cid sk e \<longrightarrow>
      chatRun_remove sid cid sk m =
        (Some e, if xs @ ys = [] then m(sid := None) else m(sid \<mapsto> xs @ ys)))
   \<and> ((\<forall>x\<in>set (pending m sid). \<not> removeMatches cid sk x) \<longrightarrow>
      chatRun_remove sid cid sk m = (None, m))"
  using removeMatches_iff[of cid sk e] remove_hit[of m sid xs e ys cid sk]
    remove_miss[of m sid cid sk]
  by blast

text \<open>
  In the queue \<open>[entryA, entryB, entryC]\<close> the entry with client run id \<open>b\<close> is removed
  from the middle; a client run id that is not queued removes nothing.
\<close>

theorem chatRun_remove_first_match_witness:
  "fst (chatRun_remove ''s'' ''b'' None (Map.empty(''s'' \<mapsto> [entryA, entryB, entryC])))
     = Some entryB
   \<and> snd (chatRun_remove ''s'' ''b'' None (Map.empty(''s'' \<mapsto> [entryA, entryB, entryC]))) ''s''
     = Some [entryA, entryC]
   \<and> chatRun_remove ''s'' ''z'' (Some ''k'') (Map.empty(''s'' \<mapsto> [entryA, entryB, entryC]))
     = (None, Map.empty(''s'' \<mapsto> [entryA, entryB, entryC]))"
proof -
  let ?m = "Map.empty(''s'' \<mapsto> [entryA, entryB, entryC])"
  have q: "?m ''s'' = Some ([entryA] @ entryB # [entryC])" by simp
  have nb: "\<forall>x\<in>set [entryA]. \<not> removeMatches ''b'' None x"
    by (simp add: removeMatches_def entryA_def)
  have mb: "removeMatches ''b'' None entryB"
    by (simp add: removeMatches_def entryB_def truthy_def)
  have nz: "\<forall>x\<in>set (pending ?m ''s''). \<not> removeMatches ''z'' (Some ''k'') x"
    by (simp add: pending_def removeMatches_def entryA_def entryB_def entryC_def)
  from chatRun_remove_first_match[of "''b''" None entryB ?m "''s''" "[entryA]" "[entryC]"] q nb mb
  have hit: "chatRun_remove ''s'' ''b'' None ?m
               = (Some entryB, ?m(''s'' \<mapsto> [entryA, entryC]))"
    by simp
  from chatRun_remove_first_match[of "''z''" "Some ''k''" entryA ?m "''s''" "[]" "[]"] nz
  have miss: "chatRun_remove ''s'' ''z'' (Some ''k'') ?m = (None, ?m)"
    by blast
  from hit miss show ?thesis by simp
qed

section \<open>Properties of the ToolEventRecipientRegistry\<close>

lemma prune_at:
  "prune now recipients rid =
     (case recipients rid of None \<Rightarrow> None
      | Some entry \<Rightarrow> if now \<ge> cutoff entry then None else Some entry)"
  by (simp add: prune_def)

lemma cutoff_fresh:
  "\<not> isFinalized entry \<Longrightarrow>
     cutoff (entry\<lparr>updatedAt := now\<rparr>) = now + TOOL_EVENT_RECIPIENT_TTL_MS"
  by (auto simp: cutoff_def isFinalized_def split: option.splits)

lemma cutoff_live:
  "\<not> isFinalized entry \<Longrightarrow> cutoff entry = updatedAt entry + TOOL_EVENT_RECIPIENT_TTL_MS"
  by (auto simp: cutoff_def isFinalized_def split: option.splits)


lemma get_fst:
  "recipients rid = Some entry \<Longrightarrow>
     fst (toolRecipients_get now rid recipients) = Some (connIds entry)"
  by (simp add: toolRecipients_get_def)

lemma get_snd:
  "recipients rid = Some entry \<Longrightarrow>
     snd (toolRecipients_get now rid recipients) rid =
       (if now \<ge> cutoff (entry\<lparr>updatedAt := now\<rparr>) then None
        else Some (entry\<lparr>updatedAt := now\<rparr>))"
  by (simp add: toolRecipients_get_def prune_at)

lemma get_keeps:
  "recipients rid = Some entry \<Longrightarrow> \<not> isFinalized entry \<Longrightarrow>
     snd (toolRecipients_get now rid recipients) rid = Some (entry\<lparr>updatedAt := now\<rparr>)"
  by (simp add: get_snd cutoff_fresh TOOL_EVENT_RECIPIENT_TTL_MS_def)

lemma own_step_keeps:
  assumes "recipients rid = Some entry" "\<not> isFinalized entry" "opRunId op = rid"
  shows "toolStep now op recipients rid \<noteq> None"
proof (cases op)
  case (OpAdd r c)
  with assms show ?thesis
    by (auto simp: toolRecipients_add_def prune_at cutoff_def isFinalized_def
        TOOL_EVENT_RECIPIENT_TTL_MS_def split: option.splits)
next
  case (OpGet r)
  with assms get_keeps[of recipients rid entry now] show ?thesis by simp
next
  case (OpMarkFinal r)
  with assms show ?thesis
    by (auto simp: toolRecipients_markFinal_def prune_at cutoff_def isFinalized_def
        TOOL_EVENT_RECIPIENT_TTL_MS_def TOOL_EVENT_RECIPIENT_FINAL_GRACE_MS_def
        split: option.splits)
qed

lemma other_step:
  assumes "recipients rid = Some entry" "opRunId op \<noteq> rid"
  shows "toolStep now op recipients rid =
           (if sweeps op recipients \<and> now \<ge> cutoff entry then None else Some entry)"
proof (cases op)
  case (OpAdd r c)
  with assms show ?thesis
    by (auto simp: toolRecipients_add_def prune_at split: option.splits)
next
  case (OpGet r)
  with assms show ?thesis
    by (auto simp: toolRecipients_get_def prune_at split: option.splits)
next
  case (OpMarkFinal r)
  with assms show ?thesis
    by (auto simp: toolRecipients_markFinal_def prune_at split: option.splits)
qed


lemma reads_keep_alive:
  "recipients rid = Some entry \<Longrightarrow> \<not> isFinalized entry \<Longrightarrow>
   readsInTime rid (updatedAt entry) trace \<Longrightarrow>
   \<exists>e'. runTool trace recipients rid = Some e' \<and> connIds e' = connIds entry
        \<and> \<not> isFinalized e'"
proof (induction trace arbitrary: recipients entry)
  case Nil
  then show ?case by simp
next
  case (Cons step trace)
  obtain t op where st: "step = (t, op)" by (cases step)
  show ?case
  proof (cases "op = OpGet rid")
    case True
    let ?e = "entry\<lparr>updatedAt := t\<rparr>"
    have k: "toolStep t op recipients rid = Some ?e"
      using True get_keeps[of recipients rid entry t] Cons.prems(1,2) by simp
    have nf: "\<not> isFinalized ?e" using Cons.prems(2) by (simp add: isFinalized_def)
    have rt: "readsInTime rid (updatedAt ?e) trace" using Cons.prems(3) st True by simp
    from Cons.IH[of "toolStep t op recipients" ?e] k nf rt st show ?thesis by simp
  next
    case False
    with Cons.prems(3) st have o: "opRunId op \<noteq> rid"
      and lt: "t < updatedAt entry + TOOL_EVENT_RECIPIENT_TTL_MS"
      and rt: "readsInTime rid (updatedAt entry) trace" by auto
    have "\<not> t \<ge> cutoff entry" using lt cutoff_live[OF Cons.prems(2)] by simp
    then have k: "toolStep t op recipients rid = Some entry"
      using other_step[of recipients rid entry op t] Cons.prems(1) o by simp
    from Cons.IH[of "toolStep t op recipients" entry] k Cons.prems(2) rt st show ?thesis by simp
  qed
qed

text \<open>
  Claim C10. When \<open>get(runId)\<close> is called while the map holds an entry for \<open>runId\<close>,
  the call returns that entry's connection-id set, whatever the clock reads, also past
  the entry's cutoff: the entry is fetched before the sweep. For an entry that is not
  finalized the call stores the current time as \<open>updatedAt\<close> and the entry is still
  in the map afterwards. Such an entry survives every schedule in which it is only read
  and each call for another run comes less than the time-to-live after the latest read.
  If a registry call leaves a non-finalized entry absent, that call was made for
  another run id, reached the sweep, and ran at or after \<open>updatedAt\<close> plus the
  time-to-live.
\<close>

theorem toolRecipients_get_live_entry:
  assumes "recipients rid = Some entry"
  shows "fst (toolRecipients_get now rid recipients) = Some (connIds entry)
       \<and> (\<not> isFinalized entry \<longrightarrow>
            snd (toolRecipients_get now rid recipients) rid
              = Some (entry\<lparr>updatedAt := now\<rparr>))
       \<and> (\<not> isFinalized entry \<and> readsInTime rid (updatedAt entry) trace \<longrightarrow>
            (\<exists>e'. runTool trace recipients rid = Some e' \<and> connIds e' = connIds entry))
       \<and> (\<not> isFinalized entry \<and> toolStep now' op recipients rid = None \<longrightarrow>
            opRunId op \<noteq> rid \<and> sweeps op recipients
            \<and> now' \<ge> updatedAt entry + TOOL_EVENT_RECIPIENT_TTL_MS)"
proof -
  have a: "fst (toolRecipients_get now rid recipients) = Some (connIds entry)"
    using get_fst[of recipients rid entry now] assms by simp
  have b: "\<not> isFinalized entry \<longrightarrow>
            snd (toolRecipients_get now rid recipients) rid
              = Some (entry\<lparr>updatedAt := now\<rparr>)"
    using get_keeps[of recipients rid entry now] assms by blast
  have c: "\<not> isFinalized entry \<and> readsInTime rid (updatedAt entry) trace \<longrightarrow>
            (\<exists>e'. runTool trace recipients rid = Some e' \<and> connIds e' = connIds entry)"
    using reads_keep_alive[of recipients rid entry trace] assms by blast
  have d: "\<not> isFinalized entry \<and> toolStep now' op recipients rid = None \<longrightarrow>
            opRunId op \<noteq> rid \<and> sweeps op recipients
            \<and> now' \<ge> updatedAt entry + TOOL_EVENT_RECIPIENT_TTL_MS"
  proof (intro impI, elim conjE)
    assume nf: "\<not> isFinalized entry" and gone: "toolStep now' op recipients rid = None"
    have o: "opRunId op \<noteq> rid" using own_step_keeps[of recipients rid entry op now'] assms nf gone by blast
    from other_step[of recipients rid entry op now'] assms o gone
    have "sweeps op recipients \<and> now' \<ge> cutoff entry" by (simp split: if_splits)
    with o cutoff_live[OF nf] show "opRunId op \<noteq> rid \<and> sweeps op recipients
            \<and> now' \<ge> updatedAt entry + TOOL_EVENT_RECIPIENT_TTL_MS" by simp
  qed
  from a b c d show ?thesis by blast
qed

lemma recipients1_run:
  "recipients1 ''run'' = Some \<lparr>connIds = {''conn''}, updatedAt = 1000, finalizedAt = None\<rparr>"
  by (simp add: recipients1_def toolRecipients_add_def createToolEventRecipientRegistry_def
      prune_def cutoff_def TOOL_EVENT_RECIPIENT_TTL_MS_def)

text \<open>
  The subscriber registered at time 1000 is read two hours later: the set is returned
  and the entry refreshed. Read first and then followed by a call for another run, it
  survives; swept by a call for another run without the read, it is gone.
\<close>

theorem toolRecipients_get_live_entry_witness:
  "recipients1 ''run'' = Some \<lparr>connIds = {''conn''}, updatedAt = 1000, finalizedAt = None\<rparr>
   \<and> fst (toolRecipients_get 7200000 ''run'' recipients1) = Some {''conn''}
   \<and> snd (toolRecipients_get 7200000 ''run'' recipients1) ''run''
       = Some \<lparr>connIds = {''conn''}, updatedAt = 7200000, finalizedAt = None\<rparr>
   \<and> readsInTime ''run'' 1000 [(7200000, OpGet ''run''), (7700000, OpAdd ''other'' ''c'')]
   \<and> (\<exists>e'. runTool [(7200000, OpGet ''run''), (7700000, OpAdd ''other'' ''c'')] recipients1 ''run''
             = Some e' \<and> connIds e' = {''conn''})
   \<and> toolStep 7200000 (OpAdd ''other'' ''c'') recipients1 ''run'' = None
   \<and> opRunId (OpAdd ''other'' ''c'') \<noteq> ''run''"
proof -
  let ?e = "\<lparr>connIds = {''conn''}, updatedAt = 1000, finalizedAt = None\<rparr>"
  have nf: "\<not> isFinalized ?e" by (simp add: isFinalized_def)
  have rd: "readsInTime ''run'' 1000 [(7200000, OpGet ''run''), (7700000, OpAdd ''other'' ''c'')]"
    by (simp add: TOOL_EVENT_RECIPIENT_TTL_MS_def)
  have gone: "toolStep 7200000 (OpAdd ''other'' ''c'') recipients1 ''run'' = None"
    using other_step[of recipients1 "''run''" ?e "OpAdd ''other'' ''c''" 7200000] recipients1_run
    by (simp add: cutoff_def TOOL_EVENT_RECIPIENT_TTL_MS_def)
  from toolRecipients_get_live_entry[of recipients1 "''run''" ?e 7200000
      "[(7200000, OpGet ''run''), (7700000, OpAdd ''other'' ''c'')]" 7200000 "OpAdd ''other'' ''c''"]
    nf rd gone recipients1_run
  show ?thesis by simp
qed












section \<open>Properties of the AgentEventHandler\<close>

lemma handler_suppressed:
  assumes "stream evt = ''tool''"
    and "resolveToolVerboseLevel env (runId evt) (sessionKeyOf env evt s) = ''off''"
  shows "agentEventHandler env now evt s =
           (s\<lparr>agentRunSeq := (agentRunSeq s)(runId evt \<mapsto> seq evt)\<rparr>, [])"
  using assms by (simp add: agentEventHandler_def Let_def)

text \<open>
  Claim C5. For a tool-stream event whose resolved verbosity is \<open>off\<close> the handler
  makes no call at all on its output functions: no general broadcast, no broadcast to
  tool recipients, no session unicast, no chat delta or final payload. The resulting
  state is the old one with the recorded sequence number of \<open>evt.runId\<close> set to
  \<open>evt.seq\<close>; the chat run state and the tool recipient registry are untouched.
\<close>

theorem tool_off_fully_suppressed:
  assumes "stream evt = ''tool''"
    and "resolveToolVerboseLevel env (runId evt) (sessionKeyOf env evt s) = ''off''"
  shows "snd (agentEventHandler env now evt s) = []
       \<and> fst (agentEventHandler env now evt s)
           = s\<lparr>agentRunSeq := (agentRunSeq s)(runId evt \<mapsto> seq evt)\<rparr>
       \<and> chatRunState (fst (agentEventHandler env now evt s)) = chatRunState s
       \<and> toolEventRecipients (fst (agentEventHandler env now evt s)) = toolEventRecipients s
       \<and> agentRunSeq (fst (agentEventHandler env now evt s)) (runId evt) = Some (seq evt)"
  using handler_suppressed[OF assms, of now] by simp

lemma toolEvent5_off:
  "resolveToolVerboseLevel env0 (runId toolEvent5) (sessionKeyOf env0 toolEvent5 stateSeq3) = ''off''"
  by (simp add: resolveToolVerboseLevel_def env0_def normalize0_def truthy_def sessionKeyOf_def
      chatLinkOf_def chatRun_peek_def stateSeq3_def state0_def createChatRunState_def
      createChatRunRegistry_def toolEvent5_def)

text \<open>
  A tool event with sequence number 5 arrives for a run whose verbosity resolves to
  \<open>off\<close>: nothing is sent and the recorded sequence number becomes 5.
\<close>

theorem tool_off_fully_suppressed_witness:
  "stream toolEvent5 = ''tool''
   \<and> resolveToolVerboseLevel env0 (runId toolEvent5) (sessionKeyOf env0 toolEvent5 stateSeq3) = ''off''
   \<and> snd (agentEventHandler env0 1000 toolEvent5 stateSeq3) = []
   \<and> agentRunSeq (fst (agentEventHandler env0 1000 toolEvent5 stateSeq3)) ''run'' = Some 5
   \<and> chatRunState (fst (agentEventHandler env0 1000 toolEvent5 stateSeq3)) = chatRunState stateSeq3"
proof -
  have t: "stream toolEvent5 = ''tool''" by (simp add: toolEvent5_def)
  have r: "runId toolEvent5 = ''run''" "seq toolEvent5 = 5" by (simp_all add: toolEvent5_def)
  from tool_off_fully_suppressed[OF t toolEvent5_off, of 1000] t toolEvent5_off r
  show ?thesis by simp
qed

lemma emitChatDelta_noGap: "filter isSeqGap (snd (emitChatDelta env now sk cid sq txt cs)) = []"
  by (simp add: emitChatDelta_def Let_def deltaPayload_def)

lemma emitChatFinal_noGap:
  "filter isSeqGap (snd (emitChatFinal env now sk cid sq js err cs)) = []"
  by (simp add: emitChatFinal_def Let_def finalPayload_def errorPayload_def)

lemma sessionDelivery_noGap:
  assumes "\<not> isSeqGap (NodeSendToSession sk ''agent'' payload)"
  shows "filter isSeqGap (fst (snd (sessionDelivery env now evt chatLink sk cid ab payload cs))) = []"
  using assms
  by (simp add: sessionDelivery_def Let_def split_beta emitChatDelta_noGap emitChatFinal_noGap
      split: option.splits)


lemma deliverEvent_noGap:
  "filter isSeqGap
     (snd (deliverEvent env now evt chatLink sk cid ab (AgentP e1 k1) (AgentP e2 k2) s1)) = []"
  by (simp add: deliverEvent_def Let_def split_beta sessionDelivery_noGap
      split: option.splits)

lemma deliverEvent_seq:
  "agentRunSeq (fst (deliverEvent env now evt chatLink sk cid ab agentPayload toolPayload s1))
     = agentRunSeq s1"
  by (simp add: deliverEvent_def Let_def split_beta split: option.splits)


lemma handler_seq_recorded:
  "agentRunSeq (fst (agentEventHandler env now evt s)) = (agentRunSeq s)(runId evt \<mapsto> seq evt)"
  by (simp add: agentEventHandler_def Let_def split_beta deliverEvent_seq)

lemma handler_gap_effects:
  "filter isSeqGap (snd (agentEventHandler env now evt s)) =
     (if notSuppressed env evt s \<and> seq evt \<noteq> lastSeqOf evt s + 1
      then [seqGapBroadcast now evt (sessionKeyOf env evt s) (lastSeqOf evt s)] else [])"
  by (simp add: agentEventHandler_def Let_def split_beta deliverEvent_noGap notSuppressed_def
      lastSeqOf_def agentPayloadOf_def strippedPayloadOf_def seqGapBroadcast_def)

lemma correlate_withLastSeq:
  "chatLinkOf evt (withLastSeq evt s) = chatLinkOf evt s"
  "sessionKeyOf env evt (withLastSeq evt s) = sessionKeyOf env evt s"
  "clientRunIdOf evt (withLastSeq evt s) = clientRunIdOf evt s"
  "isAbortedOf evt (withLastSeq evt s) = isAbortedOf evt s"
  by (simp_all add: chatLinkOf_def sessionKeyOf_def clientRunIdOf_def isAbortedOf_def
      withLastSeq_def)

lemma handler_gap_prefix:
  assumes "notSuppressed env evt s" "seq evt \<noteq> lastSeqOf evt s + 1"
  shows "agentEventHandler env now evt s =
           (fst (agentEventHandler env now evt (withLastSeq evt s)),
            seqGapBroadcast now evt (sessionKeyOf env evt s) (lastSeqOf evt s)
              # snd (agentEventHandler env now evt (withLastSeq evt s)))"
proof -
  have u: "(withLastSeq evt s)\<lparr>agentRunSeq :=
              (agentRunSeq (withLastSeq evt s))(runId evt \<mapsto> seq evt)\<rparr>
           = s\<lparr>agentRunSeq := (agentRunSeq s)(runId evt \<mapsto> seq evt)\<rparr>"
    by (simp add: withLastSeq_def)
  have l: "agentRunSeq (withLastSeq evt s) (runId evt) = Some (seq evt - 1)"
    by (simp add: withLastSeq_def)
  show ?thesis
    using assms
    by (simp add: agentEventHandler_def[of env now evt s]
        agentEventHandler_def[of env now evt "withLastSeq evt s"]
        Let_def split_beta correlate_withLastSeq u l notSuppressed_def lastSeqOf_def)
qed


lemmas handler_eval =
  agentEventHandler_def deliverEvent_def sessionDelivery_def emitChatDelta_def
  emitChatFinal_def deltaPayload_def finalPayload_def errorPayload_def
  resolveToolVerboseLevel_def shouldSuppressHeartbeatBroadcast_def
  chatLinkOf_def sessionKeyOf_def clientRunIdOf_def isAbortedOf_def agentPayloadOf_def
  strippedPayloadOf_def lifecyclePhaseOf_def isEndPhase_def textOf_def errorOf_def
  jobStateOf_def seqGapBroadcast_def chatRun_peek_def chatRun_shift_def truthy_def
  toolRecipients_get_def toolRecipients_markFinal_def prune_def cutoff_def
  createChatRunState_def createChatRunRegistry_def createToolEventRecipientRegistry_def
  env0_def envHeartbeat_def normalize0_def state0_def stateSeq3_def toolEvent5_def
  assistantEvent_def lifecycleEvent_def emptyData_def Let_def split_beta

text \<open>
  Claim C4, as the code has it. In all cases the recorded sequence number of
  \<open>evt.runId\<close> becomes \<open>evt.seq\<close>. With \<open>last\<close> the number recorded before (0 when
  none): an event that is not a suppressed tool event (a tool event whose resolved
  verbosity is \<open>off\<close>) and whose \<open>seq\<close> is not \<open>last + 1\<close> makes the handler emit exactly
  one sequence-gap broadcast on the general channel, with \<open>expected = last + 1\<close> and
  \<open>received = evt.seq\<close>, as its first call; what follows, and the resulting state, are
  exactly what the handler does for the same event when no gap is present. In every
  other case no sequence-gap broadcast is emitted: a suppressed tool event records its
  sequence number and reports nothing.
\<close>

theorem seq_gap_reported:
  "agentRunSeq (fst (agentEventHandler env now evt s)) (runId evt) = Some (seq evt)
   \<and> filter isSeqGap (snd (agentEventHandler env now evt s)) =
       (if notSuppressed env evt s \<and> seq evt \<noteq> lastSeqOf evt s + 1
        then [Broadcast ''agent''
                (SeqGapP (runId evt) now (sessionKeyOf env evt s) (lastSeqOf evt s + 1) (seq evt))
                False]
        else [])
   \<and> (notSuppressed env evt s \<and> seq evt \<noteq> lastSeqOf evt s + 1 \<longrightarrow>
        agentEventHandler env now evt s =
          (fst (agentEventHandler env now evt (withLastSeq evt s)),
           Broadcast ''agent''
             (SeqGapP (runId evt) now (sessionKeyOf env evt s) (lastSeqOf evt s + 1) (seq evt))
             False
           # snd (agentEventHandler env now evt (withLastSeq evt s))))"
proof -
  have a: "agentRunSeq (fst (agentEventHandler env now evt s)) (runId evt) = Some (seq evt)"
    by (simp add: handler_seq_recorded)
  note b = handler_gap_effects[of env now evt s, unfolded seqGapBroadcast_def]
  have c: "notSuppressed env evt s \<and> seq evt \<noteq> lastSeqOf evt s + 1 \<longrightarrow>
        agentEventHandler env now evt s =
          (fst (agentEventHandler env now evt (withLastSeq evt s)),
           Broadcast ''agent''
             (SeqGapP (runId evt) now (sessionKeyOf env evt s) (lastSeqOf evt s + 1) (seq evt))
             False
           # snd (agentEventHandler env now evt (withLastSeq evt s)))"
    using handler_gap_prefix[of env evt s now, unfolded seqGapBroadcast_def] by blast
  from a b c show ?thesis by blast
qed

text \<open>
  Claim C4 as stated fails for a suppressed tool event: sequence number 5 arrives when 3
  was recorded, and the handler makes no call at all.
\<close>

theorem seq_gap_suppressed_tool_counterexample:
  "agentRunSeq stateSeq3 (runId toolEvent5) = Some 3
   \<and> seq toolEvent5 = 5
   \<and> snd (agentEventHandler env0 1000 toolEvent5 stateSeq3) = []"
proof -
  have t: "stream toolEvent5 = ''tool''" by (simp add: toolEvent5_def)
  have "snd (agentEventHandler env0 1000 toolEvent5 stateSeq3) = []"
    using handler_suppressed[OF t toolEvent5_off, of 1000] by simp
  then show ?thesis by (simp add: stateSeq3_def toolEvent5_def)
qed

lemma assistant5_facts:
  "notSuppressed env0 (assistantEvent 5 ''Hello'') stateSeq3"
  "lastSeqOf (assistantEvent 5 ''Hello'') stateSeq3 = 3"
  "sessionKeyOf env0 (assistantEvent 5 ''Hello'') stateSeq3 = Some ''sk''"
  "runId (assistantEvent 5 txt) = ''run''"
  "seq (assistantEvent 5 txt) = 5"
  by (simp_all add: notSuppressed_def lastSeqOf_def handler_eval)

text \<open>
  An assistant event with sequence number 5 arrives when 3 was recorded: one gap
  broadcast with expected 4 and received 5 comes first, then the event is delivered as
  without the gap, its general broadcast included, and 5 is recorded.
\<close>

theorem seq_gap_reported_witness:
  "notSuppressed env0 (assistantEvent 5 ''Hello'') stateSeq3
   \<and> lastSeqOf (assistantEvent 5 ''Hello'') stateSeq3 = 3
   \<and> agentRunSeq (fst (agentEventHandler env0 1000 (assistantEvent 5 ''Hello'') stateSeq3)) ''run''
       = Some 5
   \<and> filter isSeqGap (snd (agentEventHandler env0 1000 (assistantEvent 5 ''Hello'') stateSeq3))
       = [Broadcast ''agent'' (SeqGapP ''run'' 1000 (Some ''sk'') 4 5) False]
   \<and> snd (agentEventHandler env0 1000 (assistantEvent 5 ''Hello'') stateSeq3)
       = Broadcast ''agent'' (SeqGapP ''run'' 1000 (Some ''sk'') 4 5) False
         # snd (agentEventHandler env0 1000 (assistantEvent 5 ''Hello'')
                 (withLastSeq (assistantEvent 5 ''Hello'') stateSeq3))
   \<and> Broadcast ''agent'' (AgentP (assistantEvent 5 ''Hello'') (Some ''sk'')) False
       \<in> set (snd (agentEventHandler env0 1000 (assistantEvent 5 ''Hello'')
                 (withLastSeq (assistantEvent 5 ''Hello'') stateSeq3)))"
proof -
  note th = seq_gap_reported[of env0 1000 "assistantEvent 5 ''Hello''" stateSeq3]
  have d: "Broadcast ''agent'' (AgentP (assistantEvent 5 ''Hello'') (Some ''sk'')) False
       \<in> set (snd (agentEventHandler env0 1000 (assistantEvent 5 ''Hello'')
                 (withLastSeq (assistantEvent 5 ''Hello'') stateSeq3)))"
    by (simp add: handler_eval withLastSeq_def)
  note th1 = th[THEN conjunct1]
  note th2 = th[THEN conjunct2, THEN conjunct1]
  note th3 = th[THEN conjunct2, THEN conjunct2]
  from th1 assistant5_facts
  have a: "agentRunSeq (fst (agentEventHandler env0 1000 (assistantEvent 5 ''Hello'') stateSeq3))
             ''run'' = Some 5"
    by simp
  from th2 assistant5_facts
  have b: "filter isSeqGap (snd (agentEventHandler env0 1000 (assistantEvent 5 ''Hello'') stateSeq3))
       = [Broadcast ''agent'' (SeqGapP ''run'' 1000 (Some ''sk'') 4 5) False]"
    by simp
  from th3 assistant5_facts
  have "agentEventHandler env0 1000 (assistantEvent 5 ''Hello'') stateSeq3 =
          (fst (agentEventHandler env0 1000 (assistantEvent 5 ''Hello'')
                 (withLastSeq (assistantEvent 5 ''Hello'') stateSeq3)),
           Broadcast ''agent'' (SeqGapP ''run'' 1000 (Some ''sk'') 4 5) False
           # snd (agentEventHandler env0 1000 (assistantEvent 5 ''Hello'')
                   (withLastSeq (assistantEvent 5 ''Hello'') stateSeq3)))"
    by simp
  then have c: "snd (agentEventHandler env0 1000 (assistantEvent 5 ''Hello'') stateSeq3)
       = Broadcast ''agent'' (SeqGapP ''run'' 1000 (Some ''sk'') 4 5) False
         # snd (agentEventHandler env0 1000 (assistantEvent 5 ''Hello'')
                 (withLastSeq (assistantEvent 5 ''Hello'') stateSeq3))"
    by (rule arg_cong[where f = snd, THEN trans]) simp
  from a b c d assistant5_facts(1,2) show ?thesis by blast
qed

lemma emitChatDelta_result:
  "emitChatDelta env now sk cid sq txt cs =
     (if throttleOpen now cs cid
      then (cs\<lparr>buffers := (buffers cs)(cid \<mapsto> txt),
                deltaSentAt := (deltaSentAt cs)(cid \<mapsto> now)\<rparr>,
            (if shouldSuppressHeartbeatBroadcast env cid then []
             else [Broadcast ''chat'' (deltaPayload sk cid sq txt now) True])
            @ [NodeSendToSession sk ''chat'' (deltaPayload sk cid sq txt now)])
      else (cs\<lparr>buffers := (buffers cs)(cid \<mapsto> txt)\<rparr>, []))"
  by (simp add: emitChatDelta_def Let_def throttleOpen_def lastDeltaSentAt_def)

lemma handler_assistant:
  assumes "stream evt = ''assistant''" "textOf evt = Some txt"
    and "sessionKeyOf env evt s = Some sk" "sk \<noteq> []" "\<not> isAbortedOf evt s"
  shows "agentEventHandler env now evt s =
     (s\<lparr>agentRunSeq := (agentRunSeq s)(runId evt \<mapsto> seq evt),
        chatRunState :=
          fst (emitChatDelta env now sk (clientRunIdOf evt s) (seq evt) txt (chatRunState s))\<rparr>,
      (if seq evt \<noteq> lastSeqOf evt s + 1
       then [seqGapBroadcast now evt (Some sk) (lastSeqOf evt s)] else [])
      @ [Broadcast ''agent'' (AgentP evt (Some sk)) False,
         NodeSendToSession sk ''agent'' (AgentP evt (Some sk))]
      @ snd (emitChatDelta env now sk (clientRunIdOf evt s) (seq evt) txt (chatRunState s)))"
  using assms
  by (simp add: agentEventHandler_def deliverEvent_def sessionDelivery_def Let_def split_beta
      truthy_def agentPayloadOf_def lifecyclePhaseOf_def isEndPhase_def lastSeqOf_def)


text \<open>
  Claim C1, as the code has it. Take an assistant-stream event carrying string text, for
  a run whose session key is known (not empty) and which is not marked aborted. The
  handler always replaces the buffered text of the client run id by the event's text.
  It emits a chat payload with state \<open>delta\<close> carrying that text exactly when at least
  150 ms have passed since the recorded last delta broadcast of that id, counted from 0
  when none is recorded. The emitted payload always goes to the session unicast; it
  goes to the general broadcast (with \<open>dropIfSlow\<close>) unless the run is a heartbeat
  run whose broadcasts are suppressed. When the payload is emitted the last-delta time
  becomes the current time; when it is not, only the buffer changes in the chat run
  state. The registry and the abort markers are untouched.
\<close>

theorem assistant_delta_throttled:
  assumes "stream evt = ''assistant''" and "textOf evt = Some txt"
    and "sessionKeyOf env evt s = Some sk" and "sk \<noteq> []" and "\<not> isAbortedOf evt s"
  shows "buffers (chatRunState (fst (agentEventHandler env now evt s)))
           = (buffers (chatRunState s))(clientRunIdOf evt s \<mapsto> txt)
       \<and> filter isChat (snd (agentEventHandler env now evt s))
           = (if throttleOpen now (chatRunState s) (clientRunIdOf evt s)
              then (if shouldSuppressHeartbeatBroadcast env (clientRunIdOf evt s) then []
                    else [Broadcast ''chat''
                            (deltaPayload sk (clientRunIdOf evt s) (seq evt) txt now) True])
                   @ [NodeSendToSession sk ''chat''
                        (deltaPayload sk (clientRunIdOf evt s) (seq evt) txt now)]
              else [])
       \<and> deltaSentAt (chatRunState (fst (agentEventHandler env now evt s)))
           = (if throttleOpen now (chatRunState s) (clientRunIdOf evt s)
              then (deltaSentAt (chatRunState s))(clientRunIdOf evt s \<mapsto> now)
              else deltaSentAt (chatRunState s))
       \<and> (\<not> throttleOpen now (chatRunState s) (clientRunIdOf evt s) \<longrightarrow>
            chatRunState (fst (agentEventHandler env now evt s))
              = (chatRunState s)\<lparr>buffers :=
                   (buffers (chatRunState s))(clientRunIdOf evt s \<mapsto> txt)\<rparr>)
       \<and> registry (chatRunState (fst (agentEventHandler env now evt s)))
           = registry (chatRunState s)
       \<and> abortedRuns (chatRunState (fst (agentEventHandler env now evt s)))
           = abortedRuns (chatRunState s)"
  by (simp add: handler_assistant[OF assms] emitChatDelta_result seqGapBroadcast_def)

lemma assistant4_facts:
  "stream (assistantEvent n txt) = ''assistant''"
  "textOf (assistantEvent n txt) = Some txt"
  "sessionKeyOf env0 (assistantEvent n txt) stateSeq3 = Some ''sk''"
  "sessionKeyOf envHeartbeat (assistantEvent n txt) stateSeq3 = Some ''sk''"
  "\<not> isAbortedOf (assistantEvent n txt) stateSeq3"
  "clientRunIdOf (assistantEvent n txt) stateSeq3 = ''run''"
  "deltaSentAt (chatRunState stateSeq3) ''run'' = None"
  "buffers (chatRunState stateSeq3) = Map.empty"
  "seq (assistantEvent n txt) = n"
  by (simp_all add: handler_eval)

lemma heartbeat_facts:
  "shouldSuppressHeartbeatBroadcast envHeartbeat r"
  "\<not> shouldSuppressHeartbeatBroadcast env0 r"
  by (simp_all add: handler_eval)

text \<open>
  Claim C1 as stated fails twice. For a heartbeat run whose broadcasts are suppressed,
  the first text event at clock reading 1000, with no recorded last broadcast, puts no
  chat payload on the general broadcast. And with no recorded last broadcast a first
  text event at clock reading 100 emits no chat payload at all.
\<close>

theorem assistant_delta_counterexample:
  "deltaSentAt (chatRunState stateSeq3) ''run'' = None
   \<and> filter isChatBroadcast
        (snd (agentEventHandler envHeartbeat 1000 (assistantEvent 4 ''Hello'') stateSeq3)) = []
   \<and> filter isChat
        (snd (agentEventHandler env0 100 (assistantEvent 4 ''Hello'') stateSeq3)) = []"
proof -
  have a: "filter isChatBroadcast
        (snd (agentEventHandler envHeartbeat 1000 (assistantEvent 4 ''Hello'') stateSeq3)) = []"
    by (simp add: handler_assistant[of "assistantEvent 4 ''Hello''" "''Hello''" envHeartbeat
          stateSeq3 "''sk''" 1000]
        assistant4_facts heartbeat_facts emitChatDelta_result seqGapBroadcast_def)
  have b: "filter isChat
        (snd (agentEventHandler env0 100 (assistantEvent 4 ''Hello'') stateSeq3)) = []"
    by (simp add: handler_assistant[of "assistantEvent 4 ''Hello''" "''Hello''" env0
          stateSeq3 "''sk''" 100]
        assistant4_facts emitChatDelta_result seqGapBroadcast_def throttleOpen_def
        lastDeltaSentAt_def)
  from a b assistant4_facts(7) show ?thesis by blast
qed


lemma plain_run_facts:
  assumes "registry (chatRunState s) = Map.empty" "abortedRuns (chatRunState s) = Map.empty"
  shows "sessionKeyOf env0 (assistantEvent n txt) s = Some ''sk''"
    and "\<not> isAbortedOf (assistantEvent n txt) s"
    and "clientRunIdOf (assistantEvent n txt) s = ''run''"
  using assms
  by (simp_all add: sessionKeyOf_def isAbortedOf_def clientRunIdOf_def chatLinkOf_def
      chatRun_peek_def env0_def assistantEvent_def)

lemma stateSeq3_plain:
  "registry (chatRunState stateSeq3) = Map.empty"
  "abortedRuns (chatRunState stateSeq3) = Map.empty"
  by (simp_all add: handler_eval)

text \<open>
  The text \<open>Hello\<close> at time 1000 is broadcast at once; \<open>Hello wor\<close> 100 ms later only
  updates the buffer and leaves the last-delta time at 1000; \<open>Hello world\<close> at time
  1200 is broadcast.
\<close>

theorem assistant_delta_throttled_witness:
  "filter isChat (snd (agentEventHandler env0 1000 (assistantEvent 4 ''Hello'') stateSeq3))
     = [Broadcast ''chat'' (deltaPayload ''sk'' ''run'' 4 ''Hello'' 1000) True,
        NodeSendToSession ''sk'' ''chat'' (deltaPayload ''sk'' ''run'' 4 ''Hello'' 1000)]
   \<and> filter isChat
        (snd (agentEventHandler env0 1100 (assistantEvent 5 ''Hello wor'') stateAfterHello)) = []
   \<and> buffers (chatRunState stateAfterSecond) ''run'' = Some ''Hello wor''
   \<and> deltaSentAt (chatRunState stateAfterSecond) ''run'' = Some 1000
   \<and> filter isChat
        (snd (agentEventHandler env0 1200 (assistantEvent 6 ''Hello world'') stateAfterSecond))
     = [Broadcast ''chat'' (deltaPayload ''sk'' ''run'' 6 ''Hello world'' 1200) True,
        NodeSendToSession ''sk'' ''chat'' (deltaPayload ''sk'' ''run'' 6 ''Hello world'' 1200)]"
proof -
  note f0 = plain_run_facts[OF stateSeq3_plain]
  have o0: "throttleOpen 1000 (chatRunState stateSeq3) ''run''"
    by (simp add: throttleOpen_def lastDeltaSentAt_def assistant4_facts)
  have ne: "''sk'' \<noteq> []" by simp
  note t1 = assistant_delta_throttled[of "assistantEvent 4 ''Hello''" "''Hello''" env0
      stateSeq3 "''sk''" 1000, OF assistant4_facts(1,2) f0(1) ne f0(2),
      unfolded f0(3) assistant4_facts(9), folded stateAfterHello_def]
  have a: "filter isChat (snd (agentEventHandler env0 1000 (assistantEvent 4 ''Hello'') stateSeq3))
     = [Broadcast ''chat'' (deltaPayload ''sk'' ''run'' 4 ''Hello'' 1000) True,
        NodeSendToSession ''sk'' ''chat'' (deltaPayload ''sk'' ''run'' 4 ''Hello'' 1000)]"
    using t1 o0 heartbeat_facts(2) by simp
  have d1: "deltaSentAt (chatRunState stateAfterHello) = [''run'' \<mapsto> 1000]"
    using t1 o0 by (simp add: handler_eval)
  have p1: "registry (chatRunState stateAfterHello) = Map.empty"
    "abortedRuns (chatRunState stateAfterHello) = Map.empty"
    using t1 stateSeq3_plain by simp_all
  note f1 = plain_run_facts[OF p1]
  have o1: "\<not> throttleOpen 1100 (chatRunState stateAfterHello) ''run''"
    by (simp add: throttleOpen_def lastDeltaSentAt_def d1)
  note t2 = assistant_delta_throttled[of "assistantEvent 5 ''Hello wor''" "''Hello wor''" env0
      stateAfterHello "''sk''" 1100, OF assistant4_facts(1,2) f1(1) ne f1(2),
      unfolded f1(3) assistant4_facts(9), folded stateAfterSecond_def]
  have b: "filter isChat
        (snd (agentEventHandler env0 1100 (assistantEvent 5 ''Hello wor'') stateAfterHello)) = []"
    using t2 o1 by simp
  have c: "buffers (chatRunState stateAfterSecond) ''run'' = Some ''Hello wor''"
    using t2 by simp
  have d2: "deltaSentAt (chatRunState stateAfterSecond) = [''run'' \<mapsto> 1000]"
    using t2 o1 d1 by simp
  have p2: "registry (chatRunState stateAfterSecond) = Map.empty"
    "abortedRuns (chatRunState stateAfterSecond) = Map.empty"
    using t2 p1 by simp_all
  note f2 = plain_run_facts[OF p2]
  have o2: "throttleOpen 1200 (chatRunState stateAfterSecond) ''run''"
    by (simp add: throttleOpen_def lastDeltaSentAt_def d2)
  note t3 = assistant_delta_throttled[of "assistantEvent 6 ''Hello world''" "''Hello world''" env0
      stateAfterSecond "''sk''" 1200, OF assistant4_facts(1,2) f2(1) ne f2(2),
      unfolded f2(3) assistant4_facts(9)]
  have e: "filter isChat
        (snd (agentEventHandler env0 1200 (assistantEvent 6 ''Hello world'') stateAfterSecond))
     = [Broadcast ''chat'' (deltaPayload ''sk'' ''run'' 6 ''Hello world'' 1200) True,
        NodeSendToSession ''sk'' ''chat'' (deltaPayload ''sk'' ''run'' 6 ''Hello world'' 1200)]"
    using t3 o2 heartbeat_facts(2) by simp
  from a b c d2 e show ?thesis by simp
qed

lemma peek_shift:
  "chatRun_peek sid m = Some l \<Longrightarrow> fst (chatRun_shift sid m) = Some l"
  by (auto simp: chatRun_peek_def chatRun_shift_def split: option.splits list.splits)

lemma peek_none_shift:
  "chatRun_peek sid m = None \<Longrightarrow> chatRun_shift sid m = (None, m)"
  by (auto simp: chatRun_peek_def chatRun_shift_def split: option.splits list.splits)

lemma emitChatFinal_result:
  "emitChatFinal env now sk cid sq js err cs =
     (cs\<lparr>buffers := (buffers cs)(cid := None), deltaSentAt := (deltaSentAt cs)(cid := None)\<rparr>,
      (if js = JobDone then
         (if shouldSuppressHeartbeatBroadcast env cid then []
          else [Broadcast ''chat'' (finalPayload sk cid sq (trimmedBuffer cs cid) now) False])
         @ [NodeSendToSession sk ''chat'' (finalPayload sk cid sq (trimmedBuffer cs cid) now)]
       else [Broadcast ''chat'' (errorPayload env sk cid sq err) False,
             NodeSendToSession sk ''chat'' (errorPayload env sk cid sq err)]))"
  by (simp add: emitChatFinal_def Let_def trimmedBuffer_def)

lemma handler_lifecycle_end:
  assumes "lifecyclePhaseOf evt = Some ph" "ph = ''end'' \<or> ph = ''error''"
    and "sessionKeyOf env evt s = Some sk" "sk \<noteq> []" "\<not> isAbortedOf evt s"
  shows "agentEventHandler env now evt s =
     (let cs1 = (chatRunState s)\<lparr>registry :=
                  snd (chatRun_shift (runId evt) (registry (chatRunState s)))\<rparr>;
          fin = emitChatFinal env now sk (clientRunIdOf evt s) (seq evt)
                  (if ph = ''error'' then JobError else JobDone) (errorOf evt) cs1
      in (s\<lparr>agentRunSeq := (agentRunSeq s)(runId evt \<mapsto> seq evt),
            chatRunState := fst fin,
            toolEventRecipients :=
              toolRecipients_markFinal now (runId evt) (toolEventRecipients s)\<rparr>,
          (if seq evt \<noteq> lastSeqOf evt s + 1
           then [seqGapBroadcast now evt (Some sk) (lastSeqOf evt s)] else [])
          @ [Broadcast ''agent'' (AgentP evt (Some sk)) False,
             NodeSendToSession sk ''agent'' (AgentP evt (Some sk))]
          @ snd fin @ [ClearAgentRunContext (runId evt)]))"
proof -
  from assms(1) have st: "stream evt = ''lifecycle''"
    by (simp add: lifecyclePhaseOf_def split: if_splits)
  show ?thesis
  proof (cases "chatLinkOf evt s")
    case None
    then have sh: "chatRun_shift (runId evt) (registry (chatRunState s))
                     = (None, registry (chatRunState s))"
      by (simp add: chatLinkOf_def peek_none_shift)
    from None have cid: "clientRunIdOf evt s = runId evt" by (simp add: clientRunIdOf_def)
    show ?thesis using assms st None sh cid
      by (simp add: agentEventHandler_def deliverEvent_def sessionDelivery_def Let_def
          split_beta truthy_def agentPayloadOf_def isEndPhase_def lastSeqOf_def jobStateOf_def
          emitChatFinal_result)
  next
    case (Some link)
    then have sh: "fst (chatRun_shift (runId evt) (registry (chatRunState s))) = Some link"
      by (simp add: chatLinkOf_def peek_shift)
    from Some assms(3) have sk: "sessionKey link = sk" by (simp add: sessionKeyOf_def)
    from Some have cid: "clientRunIdOf evt s = clientRunId link" by (simp add: clientRunIdOf_def)
    show ?thesis using assms st Some sh sk cid
      by (simp add: agentEventHandler_def deliverEvent_def sessionDelivery_def Let_def
          split_beta truthy_def agentPayloadOf_def isEndPhase_def lastSeqOf_def jobStateOf_def
          emitChatFinal_result)
  qed
qed


text \<open>
  Claim C2. Take a lifecycle event with phase \<open>end\<close> or \<open>error\<close>, for a run that is not
  marked aborted and whose session key is known (not empty). The handler emits exactly
  one finalization chat payload for the correlated client run id (the id of the peeked
  registry entry, which is popped; the bare run id when there is no entry and the
  registry stays as it is). For phase \<open>end\<close> (job state done) the payload has state
  \<open>final\<close>; its message is the assistant message carrying the trimmed buffered text,
  and is omitted when that text is empty; it goes once to the session unicast and once
  to the general broadcast, the latter unless the run is a heartbeat run whose
  broadcasts are suppressed. For phase \<open>error\<close> the payload has state \<open>error\<close> with the
  formatted error, and goes once to each. Afterwards neither \<open>buffers\<close> nor
  \<open>deltaSentAt\<close> has an entry for that client run id.
\<close>

theorem lifecycle_end_finalizes:
  assumes "lifecyclePhaseOf evt = Some ph" and "ph = ''end'' \<or> ph = ''error''"
    and "sessionKeyOf env evt s = Some sk" and "sk \<noteq> []" and "\<not> isAbortedOf evt s"
    and "cid = clientRunIdOf evt s" and "txt = trimmedBuffer (chatRunState s) cid"
    and "s' = fst (agentEventHandler env now evt s)"
  shows "filter isChat (snd (agentEventHandler env now evt s)) =
          (if ph = ''error'' then
             [Broadcast ''chat''
                (ChatP \<lparr>chat_runId = cid, chat_sessionKey = sk, chat_seq = seq evt,
                        chat_state = StateError, chat_message = None,
                        chat_errorMessage =
                          (case errorOf evt of
                             None \<Rightarrow> None
                           | Some e \<Rightarrow> if e \<noteq> [] then Some (formatForLog env e) else None)\<rparr>)
                False,
              NodeSendToSession sk ''chat''
                (ChatP \<lparr>chat_runId = cid, chat_sessionKey = sk, chat_seq = seq evt,
                        chat_state = StateError, chat_message = None,
                        chat_errorMessage =
                          (case errorOf evt of
                             None \<Rightarrow> None
                           | Some e \<Rightarrow> if e \<noteq> [] then Some (formatForLog env e) else None)\<rparr>)]
           else
             (if shouldSuppressHeartbeatBroadcast env cid then []
              else [Broadcast ''chat''
                      (ChatP \<lparr>chat_runId = cid, chat_sessionKey = sk, chat_seq = seq evt,
                              chat_state = StateFinal,
                              chat_message =
                                (if txt \<noteq> []
                                 then Some \<lparr>role = ''assistant'', content = txt, timestamp = now\<rparr>
                                 else None),
                              chat_errorMessage = None\<rparr>)
                      False])
             @ [NodeSendToSession sk ''chat''
                  (ChatP \<lparr>chat_runId = cid, chat_sessionKey = sk, chat_seq = seq evt,
                          chat_state = StateFinal,
                          chat_message =
                            (if txt \<noteq> []
                             then Some \<lparr>role = ''assistant'', content = txt, timestamp = now\<rparr>
                             else None),
                          chat_errorMessage = None\<rparr>)])
       \<and> buffers (chatRunState s') cid = None
       \<and> deltaSentAt (chatRunState s') cid = None
       \<and> registry (chatRunState s') = snd (chatRun_shift (runId evt) (registry (chatRunState s)))
       \<and> (\<forall>link. chatLinkOf evt s = Some link \<longrightarrow>
              fst (chatRun_shift (runId evt) (registry (chatRunState s))) = Some link
              \<and> pending (registry (chatRunState s')) (runId evt)
                    = tl (pending (registry (chatRunState s)) (runId evt))
              \<and> cid = clientRunId link)
       \<and> (chatLinkOf evt s = None \<longrightarrow>
              registry (chatRunState s') = registry (chatRunState s) \<and> cid = runId evt)"
proof -
  note h = handler_lifecycle_end[OF assms(1-5), of now]
  have chat: "filter isChat (snd (agentEventHandler env now evt s)) =
      snd (emitChatFinal env now sk cid (seq evt)
             (if ph = ''error'' then JobError else JobDone) (errorOf evt)
             ((chatRunState s)\<lparr>registry :=
                 snd (chatRun_shift (runId evt) (registry (chatRunState s)))\<rparr>))"
    using assms(6)
    by (simp add: h Let_def seqGapBroadcast_def emitChatFinal_result)
  have st: "chatRunState s' =
      fst (emitChatFinal env now sk cid (seq evt)
             (if ph = ''error'' then JobError else JobDone) (errorOf evt)
             ((chatRunState s)\<lparr>registry :=
                 snd (chatRun_shift (runId evt) (registry (chatRunState s)))\<rparr>))"
    using assms(6,8) by (simp add: h Let_def)
  have a: "filter isChat (snd (agentEventHandler env now evt s)) =
          (if ph = ''error'' then
             [Broadcast ''chat'' (errorPayload env sk cid (seq evt) (errorOf evt)) False,
              NodeSendToSession sk ''chat'' (errorPayload env sk cid (seq evt) (errorOf evt))]
           else
             (if shouldSuppressHeartbeatBroadcast env cid then []
              else [Broadcast ''chat'' (finalPayload sk cid (seq evt) txt now) False])
             @ [NodeSendToSession sk ''chat'' (finalPayload sk cid (seq evt) txt now)])"
    using assms(7) by (simp add: chat emitChatFinal_result trimmedBuffer_def)
  have b: "buffers (chatRunState s') cid = None" "deltaSentAt (chatRunState s') cid = None"
    "registry (chatRunState s') = snd (chatRun_shift (runId evt) (registry (chatRunState s)))"
    by (simp_all add: st emitChatFinal_result)
  have c: "\<forall>link. chatLinkOf evt s = Some link \<longrightarrow>
              fst (chatRun_shift (runId evt) (registry (chatRunState s))) = Some link
              \<and> pending (registry (chatRunState s')) (runId evt)
                    = tl (pending (registry (chatRunState s)) (runId evt))
              \<and> cid = clientRunId link"
    using assms(6) b(3) pending_shift[of "runId evt" "registry (chatRunState s)"]
    by (auto simp: chatLinkOf_def peek_shift clientRunIdOf_def)
  have d: "chatLinkOf evt s = None \<longrightarrow>
              registry (chatRunState s') = registry (chatRunState s) \<and> cid = runId evt"
    using assms(6) b(3) by (auto simp: chatLinkOf_def peek_none_shift clientRunIdOf_def)
  from a b c d show ?thesis unfolding finalPayload_def errorPayload_def by blast
qed


lemma stateChat_facts:
  "lifecyclePhaseOf (lifecycleEvent n ph) = Some ph"
  "sessionKeyOf env0 (lifecycleEvent n ph) stateChat = Some ''sk''"
  "\<not> isAbortedOf (lifecycleEvent n ph) stateChat"
  "clientRunIdOf (lifecycleEvent n ph) stateChat = ''client1''"
  "chatLinkOf (lifecycleEvent n ph) stateChat = Some chatLink1"
  "trimmedBuffer (chatRunState stateChat) ''client1'' = ''Hi there''"
  "seq (lifecycleEvent n ph) = n"
  "runId (lifecycleEvent n ph) = ''run''"
  "errorOf (lifecycleEvent n ph) = None"
  by (simp_all add: handler_eval stateChat_def chatLink1_def trimmedBuffer_def trim_def
      isWhiteSpace_def)

lemma stateSeq3_lifecycle_facts:
  "sessionKeyOf env0 (lifecycleEvent n ph) stateSeq3 = Some ''sk''"
  "\<not> isAbortedOf (lifecycleEvent n ph) stateSeq3"
  "clientRunIdOf (lifecycleEvent n ph) stateSeq3 = ''run''"
  "chatLinkOf (lifecycleEvent n ph) stateSeq3 = None"
  "trimmedBuffer (chatRunState stateSeq3) ''run'' = []"
  by (simp_all add: handler_eval trimmedBuffer_def)

text \<open>
  A correlated run with the buffered text \<open>Hi there\<close> (surrounded by blanks) ends: one
  \<open>final\<close> payload with the trimmed text is sent, buffer and timestamp are cleared, the
  registry entry is popped. An uncorrelated run fails: one \<open>error\<close> payload is sent for
  the bare run id.
\<close>

theorem lifecycle_end_finalizes_witness:
  "filter isChat (snd (agentEventHandler env0 2000 (lifecycleEvent 4 ''end'') stateChat))
     = [Broadcast ''chat''
          (ChatP \<lparr>chat_runId = ''client1'', chat_sessionKey = ''sk'', chat_seq = 4,
                  chat_state = StateFinal,
                  chat_message =
                    Some \<lparr>role = ''assistant'', content = ''Hi there'', timestamp = 2000\<rparr>,
                  chat_errorMessage = None\<rparr>)
          False,
        NodeSendToSession ''sk'' ''chat''
          (ChatP \<lparr>chat_runId = ''client1'', chat_sessionKey = ''sk'', chat_seq = 4,
                  chat_state = StateFinal,
                  chat_message =
                    Some \<lparr>role = ''assistant'', content = ''Hi there'', timestamp = 2000\<rparr>,
                  chat_errorMessage = None\<rparr>)]
   \<and> buffers (chatRunState (fst (agentEventHandler env0 2000 (lifecycleEvent 4 ''end'') stateChat)))
        ''client1'' = None
   \<and> deltaSentAt
        (chatRunState (fst (agentEventHandler env0 2000 (lifecycleEvent 4 ''end'') stateChat)))
        ''client1'' = None
   \<and> pending
        (registry (chatRunState (fst (agentEventHandler env0 2000 (lifecycleEvent 4 ''end'') stateChat))))
        ''run'' = []
   \<and> filter isChat (snd (agentEventHandler env0 2000 (lifecycleEvent 4 ''error'') stateSeq3))
     = [Broadcast ''chat''
          (ChatP \<lparr>chat_runId = ''run'', chat_sessionKey = ''sk'', chat_seq = 4,
                  chat_state = StateError, chat_message = None, chat_errorMessage = None\<rparr>)
          False,
        NodeSendToSession ''sk'' ''chat''
          (ChatP \<lparr>chat_runId = ''run'', chat_sessionKey = ''sk'', chat_seq = 4,
                  chat_state = StateError, chat_message = None, chat_errorMessage = None\<rparr>)]"
proof -
  have ne: "''sk'' \<noteq> []" by simp
  have e1: "''end'' = ''end'' \<or> ''end'' = ''error''" by simp
  have e2: "''error'' = ''end'' \<or> ''error'' = ''error''" by simp
  note t1 = lifecycle_end_finalizes[of "lifecycleEvent 4 ''end''" "''end''" env0 stateChat
      "''sk''" "''client1''" "''Hi there''" _ 2000,
      OF stateChat_facts(1) e1 stateChat_facts(2) ne stateChat_facts(3)
        stateChat_facts(4)[symmetric] stateChat_facts(6)[symmetric] refl]
  note t2 = lifecycle_end_finalizes[of "lifecycleEvent 4 ''error''" "''error''" env0 stateSeq3
      "''sk''" "''run''" "[]" _ 2000,
      OF stateChat_facts(1) e2 stateSeq3_lifecycle_facts(1) ne stateSeq3_lifecycle_facts(2)
        stateSeq3_lifecycle_facts(3)[symmetric] stateSeq3_lifecycle_facts(5)[symmetric] refl]
  have p: "pending (registry (chatRunState stateChat)) ''run'' = [chatLink1]"
    by (simp add: stateChat_def pending_def)
  note t1a = t1[THEN conjunct1]
  note t1b = t1[THEN conjunct2, THEN conjunct1]
  note t1c = t1[THEN conjunct2, THEN conjunct2, THEN conjunct1]
  note t1e = t1[THEN conjunct2, THEN conjunct2, THEN conjunct2, THEN conjunct2, THEN conjunct1,
      rule_format, OF stateChat_facts(5), THEN conjunct2, THEN conjunct1]
  from t1a heartbeat_facts(2) stateChat_facts(7)
  have a: "filter isChat (snd (agentEventHandler env0 2000 (lifecycleEvent 4 ''end'') stateChat))
     = [Broadcast ''chat''
          (ChatP \<lparr>chat_runId = ''client1'', chat_sessionKey = ''sk'', chat_seq = 4,
                  chat_state = StateFinal,
                  chat_message =
                    Some \<lparr>role = ''assistant'', content = ''Hi there'', timestamp = 2000\<rparr>,
                  chat_errorMessage = None\<rparr>)
          False,
        NodeSendToSession ''sk'' ''chat''
          (ChatP \<lparr>chat_runId = ''client1'', chat_sessionKey = ''sk'', chat_seq = 4,
                  chat_state = StateFinal,
                  chat_message =
                    Some \<lparr>role = ''assistant'', content = ''Hi there'', timestamp = 2000\<rparr>,
                  chat_errorMessage = None\<rparr>)]"
    by simp
  note b = t1b
  note c = t1c
  from t1e p stateChat_facts(8)
  have d: "pending
        (registry (chatRunState (fst (agentEventHandler env0 2000 (lifecycleEvent 4 ''end'') stateChat))))
        ''run'' = []"
    by simp
  from t2[THEN conjunct1] stateChat_facts(7,9)
  have e: "filter isChat (snd (agentEventHandler env0 2000 (lifecycleEvent 4 ''error'') stateSeq3))
     = [Broadcast ''chat''
          (ChatP \<lparr>chat_runId = ''run'', chat_sessionKey = ''sk'', chat_seq = 4,
                  chat_state = StateError, chat_message = None, chat_errorMessage = None\<rparr>)
          False,
        NodeSendToSession ''sk'' ''chat''
          (ChatP \<lparr>chat_runId = ''run'', chat_sessionKey = ''sk'', chat_seq = 4,
                  chat_state = StateError, chat_message = None, chat_errorMessage = None\<rparr>)]"
    by simp
  from a b c d e show ?thesis by blast
qed

lemma peek_remove:
  assumes "chatRun_peek sid m = Some l" "removeMatches cid sk l"
  shows "chatRun_remove sid cid sk m = chatRun_shift sid m"
proof -
  from assms(1) obtain q where q: "m sid = Some (l # q)"
    by (auto simp: chatRun_peek_def split: option.splits list.splits)
  have "chatRun_remove sid cid sk m =
          (Some l, if [] @ q = [] then m(sid := None) else m(sid \<mapsto> [] @ q))"
    using remove_hit[of m sid "[]" l q cid sk] q assms(2) by simp
  then show ?thesis using q by (simp add: chatRun_shift_def)
qed

lemma handler_lifecycle_aborted:
  assumes "lifecyclePhaseOf evt = Some ph" "ph = ''end'' \<or> ph = ''error''"
    and "sessionKeyOf env evt s = Some sk" "sk \<noteq> []" "isAbortedOf evt s"
  shows "agentEventHandler env now evt s =
     (s\<lparr>agentRunSeq := (agentRunSeq s)(runId evt \<mapsto> seq evt),
        chatRunState :=
          (chatRunState s)\<lparr>
             abortedRuns := ((abortedRuns (chatRunState s))(clientRunIdOf evt s := None))
                              (runId evt := None),
             buffers := (buffers (chatRunState s))(clientRunIdOf evt s := None),
             deltaSentAt := (deltaSentAt (chatRunState s))(clientRunIdOf evt s := None),
             registry := snd (chatRun_shift (runId evt) (registry (chatRunState s)))\<rparr>,
        toolEventRecipients :=
          toolRecipients_markFinal now (runId evt) (toolEventRecipients s)\<rparr>,
      (if seq evt \<noteq> lastSeqOf evt s + 1
       then [seqGapBroadcast now evt (Some sk) (lastSeqOf evt s)] else [])
      @ [Broadcast ''agent'' (AgentP evt (Some sk)) False,
         NodeSendToSession sk ''agent'' (AgentP evt (Some sk)),
         ClearAgentRunContext (runId evt)])"
proof -
  from assms(1) have st: "stream evt = ''lifecycle''"
    by (simp add: lifecyclePhaseOf_def split: if_splits)
  show ?thesis
  proof (cases "chatLinkOf evt s")
    case None
    then have sh: "chatRun_shift (runId evt) (registry (chatRunState s))
                     = (None, registry (chatRunState s))"
      by (simp add: chatLinkOf_def peek_none_shift)
    show ?thesis using assms st None sh
      by (simp add: agentEventHandler_def deliverEvent_def sessionDelivery_def Let_def
          split_beta truthy_def agentPayloadOf_def isEndPhase_def lastSeqOf_def)
  next
    case (Some link)
    from Some assms(3) have sk: "sessionKey link = sk" by (simp add: sessionKeyOf_def)
    from Some have cid: "clientRunIdOf evt s = clientRunId link" by (simp add: clientRunIdOf_def)
    have m: "removeMatches (clientRunId link) (Some sk) link"
      using sk by (simp add: removeMatches_def)
    have rm: "chatRun_remove (runId evt) (clientRunId link) (Some sk) (registry (chatRunState s))
               = chatRun_shift (runId evt) (registry (chatRunState s))"
      using peek_remove[OF _ m] Some by (simp add: chatLinkOf_def)
    show ?thesis using assms st Some cid rm
      by (simp add: agentEventHandler_def deliverEvent_def sessionDelivery_def Let_def
          split_beta truthy_def agentPayloadOf_def isEndPhase_def lastSeqOf_def)
  qed
qed


text \<open>
  Claim C3, as the code has it. Take a lifecycle event with phase \<open>end\<close> or \<open>error\<close> for
  a run marked aborted (under its client run id or its raw run id) whose session key is
  known (not empty). No chat payload of any kind is emitted. Afterwards \<open>abortedRuns\<close>
  has no marker under the client run id nor under the raw run id, and \<open>buffers\<close> and
  \<open>deltaSentAt\<close> have no entry for the client run id. When a chat-run correlation
  existed, exactly that entry, the head of the run's queue, is removed from the
  registry (the queue is deleted when it becomes empty); the rest of the queue stays, so
  the queue holds no entry with that client run id afterwards provided it held no
  second one before. Without a correlation the registry is unchanged.
\<close>

theorem aborted_end_purges:
  assumes "lifecyclePhaseOf evt = Some ph" and "ph = ''end'' \<or> ph = ''error''"
    and "sessionKeyOf env evt s = Some sk" and "sk \<noteq> []" and "isAbortedOf evt s"
    and "cid = clientRunIdOf evt s"
    and "cs' = chatRunState (fst (agentEventHandler env now evt s))"
  shows "filter isChat (snd (agentEventHandler env now evt s)) = []
       \<and> abortedRuns cs' cid = None \<and> abortedRuns cs' (runId evt) = None
       \<and> buffers cs' cid = None \<and> deltaSentAt cs' cid = None
       \<and> (\<forall>link. chatLinkOf evt s = Some link \<longrightarrow>
              clientRunId link = cid
              \<and> pending (registry (chatRunState s)) (runId evt)
                    = link # pending (registry cs') (runId evt)
              \<and> registry cs' (runId evt) \<noteq> Some []
              \<and> ((\<forall>e \<in> set (tl (pending (registry (chatRunState s)) (runId evt))).
                      clientRunId e \<noteq> cid)
                   \<longrightarrow> (\<forall>e \<in> set (pending (registry cs') (runId evt)).
                          clientRunId e \<noteq> cid)))
       \<and> (chatLinkOf evt s = None \<longrightarrow> registry cs' = registry (chatRunState s))"
proof -
  note h = handler_lifecycle_aborted[OF assms(1-5), of now]
  have a: "filter isChat (snd (agentEventHandler env now evt s)) = []"
    by (simp add: h seqGapBroadcast_def)
  have b: "abortedRuns cs' cid = None" "abortedRuns cs' (runId evt) = None"
    "buffers cs' cid = None" "deltaSentAt cs' cid = None"
    using assms(6,7) by (simp_all add: h)
  have r: "registry cs' = snd (chatRun_shift (runId evt) (registry (chatRunState s)))"
    using assms(7) by (simp add: h)
  have c: "\<forall>link. chatLinkOf evt s = Some link \<longrightarrow>
              clientRunId link = cid
              \<and> pending (registry (chatRunState s)) (runId evt)
                    = link # pending (registry cs') (runId evt)
              \<and> registry cs' (runId evt) \<noteq> Some []
              \<and> ((\<forall>e \<in> set (tl (pending (registry (chatRunState s)) (runId evt))).
                      clientRunId e \<noteq> cid)
                   \<longrightarrow> (\<forall>e \<in> set (pending (registry cs') (runId evt)).
                          clientRunId e \<noteq> cid))"
  proof (intro allI impI)
    fix link assume l: "chatLinkOf evt s = Some link"
    then obtain q where q: "registry (chatRunState s) (runId evt) = Some (link # q)"
      by (auto simp: chatLinkOf_def chatRun_peek_def split: option.splits list.splits)
    have p: "pending (registry (chatRunState s)) (runId evt) = link # q"
      using q by (simp add: pending_def)
    have p': "pending (registry cs') (runId evt) = q"
      using r pending_shift[of "runId evt" "registry (chatRunState s)"] p by simp
    have ne: "registry cs' (runId evt) \<noteq> Some []"
      using r q by (simp add: chatRun_shift_def)
    have cl: "clientRunId link = cid" using l assms(6) by (simp add: clientRunIdOf_def)
    from p p' ne cl show "clientRunId link = cid
              \<and> pending (registry (chatRunState s)) (runId evt)
                    = link # pending (registry cs') (runId evt)
              \<and> registry cs' (runId evt) \<noteq> Some []
              \<and> ((\<forall>e \<in> set (tl (pending (registry (chatRunState s)) (runId evt))).
                      clientRunId e \<noteq> cid)
                   \<longrightarrow> (\<forall>e \<in> set (pending (registry cs') (runId evt)).
                          clientRunId e \<noteq> cid))"
      by simp
  qed
  have d: "chatLinkOf evt s = None \<longrightarrow> registry cs' = registry (chatRunState s)"
    using r by (auto simp: chatLinkOf_def peek_none_shift)
  from a b c d show ?thesis by blast
qed

lemma stateAbortedTwice_facts:
  "sessionKeyOf env0 (lifecycleEvent n ph) stateAbortedTwice = Some ''sk''"
  "isAbortedOf (lifecycleEvent n ph) stateAbortedTwice"
  "clientRunIdOf (lifecycleEvent n ph) stateAbortedTwice = ''client1''"
  "chatLinkOf (lifecycleEvent n ph) stateAbortedTwice = Some chatLink1"
  "registry (chatRunState stateAbortedTwice) ''run'' = Some [chatLink1, chatLink1]"
  by (simp_all add: handler_eval stateAbortedTwice_def stateChat_def chatLink1_def)

lemma stateAborted_facts:
  "sessionKeyOf env0 (lifecycleEvent n ph) stateAborted = Some ''sk''"
  "isAbortedOf (lifecycleEvent n ph) stateAborted"
  "clientRunIdOf (lifecycleEvent n ph) stateAborted = ''client1''"
  "chatLinkOf (lifecycleEvent n ph) stateAborted = Some chatLink1"
  "pending (registry (chatRunState stateAborted)) ''run'' = [chatLink1]"
  "buffers (chatRunState stateAborted) ''client1'' = Some '' Hi there  ''"
  by (simp_all add: handler_eval stateAborted_def stateChat_def chatLink1_def pending_def)

text \<open>
  Claim C3 as stated fails when the correlation entry was queued twice for the run:
  after the aborted run's \<open>end\<close> event the registry still holds an entry with that
  client run id, which \<open>peek\<close> returns.
\<close>

theorem aborted_end_duplicate_counterexample:
  "isAbortedOf (lifecycleEvent 4 ''end'') stateAbortedTwice
   \<and> chatRun_peek ''run''
        (registry (chatRunState
           (fst (agentEventHandler env0 2000 (lifecycleEvent 4 ''end'') stateAbortedTwice))))
       = Some \<lparr>sessionKey = ''sk'', clientRunId = ''client1''\<rparr>"
proof -
  have e: "''end'' = ''end'' \<or> ''end'' = ''error''" by simp
  have ne: "''sk'' \<noteq> []" by simp
  note h = handler_lifecycle_aborted[of "lifecycleEvent 4 ''end''" "''end''" env0
      stateAbortedTwice "''sk''" 2000, OF stateChat_facts(1) e stateAbortedTwice_facts(1) ne
      stateAbortedTwice_facts(2)]
  have "chatRun_peek ''run''
        (registry (chatRunState
           (fst (agentEventHandler env0 2000 (lifecycleEvent 4 ''end'') stateAbortedTwice))))
       = Some chatLink1"
    by (simp add: h stateChat_facts(8) stateAbortedTwice_facts(5) chatRun_shift_def
        chatRun_peek_def)
  with stateAbortedTwice_facts(2) show ?thesis by (simp add: chatLink1_def)
qed

text \<open>
  A correlated run with buffered text, marked aborted under its raw run id, ends: no
  chat payload is emitted, and marker, buffer, timestamp and registry entry are gone.
\<close>

theorem aborted_end_purges_witness:
  "isAbortedOf (lifecycleEvent 4 ''end'') stateAborted
   \<and> buffers (chatRunState stateAborted) ''client1'' = Some '' Hi there  ''
   \<and> filter isChat (snd (agentEventHandler env0 2000 (lifecycleEvent 4 ''end'') stateAborted)) = []
   \<and> abortedRuns
        (chatRunState (fst (agentEventHandler env0 2000 (lifecycleEvent 4 ''end'') stateAborted)))
        ''run'' = None
   \<and> buffers
        (chatRunState (fst (agentEventHandler env0 2000 (lifecycleEvent 4 ''end'') stateAborted)))
        ''client1'' = None
   \<and> deltaSentAt
        (chatRunState (fst (agentEventHandler env0 2000 (lifecycleEvent 4 ''end'') stateAborted)))
        ''client1'' = None
   \<and> pending
        (registry
          (chatRunState (fst (agentEventHandler env0 2000 (lifecycleEvent 4 ''end'') stateAborted))))
        ''run'' = []"
proof -
  have e: "''end'' = ''end'' \<or> ''end'' = ''error''" by simp
  have ne: "''sk'' \<noteq> []" by simp
  note t = aborted_end_purges[of "lifecycleEvent 4 ''end''" "''end''" env0 stateAborted
      "''sk''" "''client1''" _ 2000, OF stateChat_facts(1) e stateAborted_facts(1) ne
      stateAborted_facts(2) stateAborted_facts(3)[symmetric] refl]
  note ta = t[THEN conjunct1]
  note tb = t[THEN conjunct2, THEN conjunct2, THEN conjunct1]
  note tc = t[THEN conjunct2, THEN conjunct2, THEN conjunct2, THEN conjunct1]
  note td = t[THEN conjunct2, THEN conjunct2, THEN conjunct2, THEN conjunct2, THEN conjunct1]
  note te = t[THEN conjunct2, THEN conjunct2, THEN conjunct2, THEN conjunct2, THEN conjunct2,
      THEN conjunct1, rule_format, OF stateAborted_facts(4), THEN conjunct2, THEN conjunct1]
  from te stateAborted_facts(5) stateChat_facts(8)
  have p: "pending
        (registry
          (chatRunState (fst (agentEventHandler env0 2000 (lifecycleEvent 4 ''end'') stateAborted))))
        ''run'' = []"
    by simp
  from tb stateChat_facts(8)
  have r: "abortedRuns
        (chatRunState (fst (agentEventHandler env0 2000 (lifecycleEvent 4 ''end'') stateAborted)))
        ''run'' = None"
    by simp
  from ta r tc td p stateAborted_facts(2,6) show ?thesis by blast
qed

section \<open>Properties of the ChannelMessageHandler\<close>

lemma ensureSessionEntry_new:
  assumes "\<forall>k \<in> set (storeKeys target). store k = None"
  shows "ensureSessionEntry env now channelId sk target msg store =
           (store((case storeKeys target of k # ks \<Rightarrow> k | [] \<Rightarrow> sk)
                    \<mapsto> newSessionEntry env now channelId msg),
            randomUUID env, None)"
proof -
  have "find (\<lambda>candidate. store candidate \<noteq> None) (storeKeys target) = None"
    using assms by (simp add: find_None_iff)
  then show ?thesis
    by (simp add: ensureSessionEntry_def Let_def truthy_def newSessionEntry_def)
qed

lemma appendTranscript_ok:
  assumes "path \<noteq> []" "tp = transcriptPathOf env path sid"
    and "files tp \<noteq> None \<or> canCreate env tp" "canAppend env tp"
  shows "appendTranscriptMessage env now ''user'' message sid path None files =
           (True, files(tp \<mapsto>
              (case files tp of Some ls \<Rightarrow> ls | None \<Rightarrow> [SessionHeader sid now])
              @ [MessageLine (randomMessageId env) ''user'' message now None]))"
  using assms
  by (auto simp: appendTranscriptMessage_def ensureTranscriptFile_def Let_def truthy_def
      split: option.splits)

lemma collectFinal_filter:
  "collectFinal ds =
     filter (\<lambda>t. t \<noteq> [])
       (map (\<lambda>(kind, payloadText). case payloadText of Some t \<Rightarrow> trim t | None \<Rightarrow> [])
          (filter (\<lambda>(kind, payloadText). kind = ''final'') ds))"
  by (induction ds rule: collectFinal.induct) (simp_all add: Let_def)

lemma channel_replies:
  "snd (snd (channelMessageHandler env now channelId accountId msg store files)) =
     (if fst (snd (ensureSessionEntry env now channelId
                     (resolveSessionKey env channelId (msg_from msg))
                     (resolveGatewaySessionStoreTarget env
                        (resolveSessionKey env channelId (msg_from msg))) msg store)) \<noteq> []
         \<and> \<not> dispatchThrows env \<and> collectFinal (deliveries env) \<noteq> [] \<and> hasOnReply env
      then [(channelId, accountId, msg_from msg,
             joinWith blankLine (collectFinal (deliveries env)))]
      else [])"
  by (simp add: channelMessageHandler_def Let_def split_beta)

text \<open>
  Claim C7, as the code has it. Take an inbound channel message whose resolved session
  key has no entry in the session store under any of its candidate keys. The handler
  stores, under the primary key, a new entry whose session id is the fresh
  \<open>randomUUID()\<close>, whose three token counters are 0 and whose send policy is \<open>allow\<close>.
  When the transcript file exists or can be created, and can be appended to, one
  message line with role \<open>user\<close> and the message text is appended to it (after the
  header line, when the file is new). \<open>onReply(channelId, accountId, msg.from, reply)\<close>
  is called exactly once when the dispatch did not throw, a callback was injected,
  and at least one \<open>final\<close> payload had text that is not empty after trimming; the reply
  is those trimmed texts joined by a blank line. In every other case \<open>onReply\<close> is
  not called.
\<close>

theorem channel_new_session:
  assumes "sk = resolveSessionKey env channelId (msg_from msg)"
    and "target = resolveGatewaySessionStoreTarget env sk"
    and "\<forall>k \<in> set (storeKeys target). store k = None"
    and "randomUUID env \<noteq> []"
    and "primaryKey = (case storeKeys target of k # ks \<Rightarrow> k | [] \<Rightarrow> sk)"
    and "tp = transcriptPathOf env (storePath target) (randomUUID env)"
    and "result = channelMessageHandler env now channelId accountId msg store files"
  shows "fst result = store(primaryKey \<mapsto> newSessionEntry env now channelId msg)
       \<and> sessionId (newSessionEntry env now channelId msg) = randomUUID env
       \<and> inputTokens (newSessionEntry env now channelId msg) = 0
       \<and> outputTokens (newSessionEntry env now channelId msg) = 0
       \<and> totalTokens (newSessionEntry env now channelId msg) = 0
       \<and> sendPolicy (newSessionEntry env now channelId msg) = Some ''allow''
       \<and> (storePath target \<noteq> [] \<and> (files tp \<noteq> None \<or> canCreate env tp) \<and> canAppend env tp
            \<longrightarrow> fst (snd result) =
                  files(tp \<mapsto>
                    (case files tp of Some ls \<Rightarrow> ls
                     | None \<Rightarrow> [SessionHeader (randomUUID env) now])
                    @ [MessageLine (randomMessageId env) ''user'' (msg_text msg) now None]))
       \<and> snd (snd result) =
            (if \<not> dispatchThrows env \<and> collectFinal (deliveries env) \<noteq> [] \<and> hasOnReply env
             then [(channelId, accountId, msg_from msg,
                    joinWith blankLine (collectFinal (deliveries env)))]
             else [])
       \<and> collectFinal (deliveries env) =
            filter (\<lambda>t. t \<noteq> [])
              (map (\<lambda>(kind, payloadText). case payloadText of Some t \<Rightarrow> trim t | None \<Rightarrow> [])
                 (filter (\<lambda>(kind, payloadText). kind = ''final'') (deliveries env)))"
proof -
  note e = ensureSessionEntry_new[OF assms(3), of env now channelId sk msg]
  have a: "fst result = store(primaryKey \<mapsto> newSessionEntry env now channelId msg)"
    using assms(1,2,4,5,7) e
    by (simp add: channelMessageHandler_def Let_def split_beta)
  have b: "sessionId (newSessionEntry env now channelId msg) = randomUUID env"
    "inputTokens (newSessionEntry env now channelId msg) = 0"
    "outputTokens (newSessionEntry env now channelId msg) = 0"
    "totalTokens (newSessionEntry env now channelId msg) = 0"
    "sendPolicy (newSessionEntry env now channelId msg) = Some ''allow''"
    by (simp_all add: newSessionEntry_def)
  have c: "storePath target \<noteq> [] \<and> (files tp \<noteq> None \<or> canCreate env tp) \<and> canAppend env tp
            \<longrightarrow> fst (snd result) =
                  files(tp \<mapsto>
                    (case files tp of Some ls \<Rightarrow> ls
                     | None \<Rightarrow> [SessionHeader (randomUUID env) now])
                    @ [MessageLine (randomMessageId env) ''user'' (msg_text msg) now None])"
  proof (intro impI, elim conjE)
    assume p: "storePath target \<noteq> []" and c: "files tp \<noteq> None \<or> canCreate env tp"
      and ap: "canAppend env tp"
    have t: "appendTranscriptMessage env now ''user'' (msg_text msg) (randomUUID env)
               (storePath target) None files =
             (True, files(tp \<mapsto>
                (case files tp of Some ls \<Rightarrow> ls
                 | None \<Rightarrow> [SessionHeader (randomUUID env) now])
                @ [MessageLine (randomMessageId env) ''user'' (msg_text msg) now None]))"
      using appendTranscript_ok[of "storePath target" tp env "randomUUID env" files now
          "msg_text msg"] p assms(6) c ap
      by blast
    show "fst (snd result) =
                  files(tp \<mapsto>
                    (case files tp of Some ls \<Rightarrow> ls
                     | None \<Rightarrow> [SessionHeader (randomUUID env) now])
                    @ [MessageLine (randomMessageId env) ''user'' (msg_text msg) now None])"
      using assms(1,2,4,7) e t
      by (simp add: channelMessageHandler_def Let_def split_beta)
  qed
  have d: "snd (snd result) =
            (if \<not> dispatchThrows env \<and> collectFinal (deliveries env) \<noteq> [] \<and> hasOnReply env
             then [(channelId, accountId, msg_from msg,
                    joinWith blankLine (collectFinal (deliveries env)))]
             else [])"
    using assms(1,2,4,7) e by (simp add: channel_replies)
  from a b c d collectFinal_filter[of "deliveries env"] show ?thesis by blast
qed


lemmas channel_eval =
  channelMessageHandler_def ensureSessionEntry_def appendTranscriptMessage_def
  ensureTranscriptFile_def newSessionEntry_def channelEnv_def channelEnvNoAppend_def
  walletMessage_def
  blankLine_def trim_def isWhiteSpace_def truthy_def Let_def split_beta

text \<open>
  Claim C7 as stated fails: a final fragment consisting of blanks is not empty, yet no
  reply is sent; nor is one sent when the dispatch throws after delivering \<open>hello!\<close>, or
  when no callback was injected; fragments are joined after trimming, not as delivered;
  and when appending to the transcript fails, the file holds the header alone and no
  user line.
\<close>

theorem channel_reply_counterexample:
  "snd (snd (channelMessageHandler (channelEnv [(''final'', Some ''  '')]) 5000
              ''spixi'' ''default'' walletMessage Map.empty Map.empty)) = []
   \<and> snd (snd (channelMessageHandler
              ((channelEnv [(''final'', Some ''hello!'')])\<lparr>dispatchThrows := True\<rparr>) 5000
              ''spixi'' ''default'' walletMessage Map.empty Map.empty)) = []
   \<and> snd (snd (channelMessageHandler
              ((channelEnv [(''final'', Some ''hello!'')])\<lparr>hasOnReply := False\<rparr>) 5000
              ''spixi'' ''default'' walletMessage Map.empty Map.empty)) = []
   \<and> snd (snd (channelMessageHandler
              (channelEnv [(''final'', Some '' a ''), (''final'', Some ''b'')]) 5000
              ''spixi'' ''default'' walletMessage Map.empty Map.empty))
       = [(''spixi'', ''default'', ''wallet-abc'', ''a'' @ [CHR 0x0A, CHR 0x0A] @ ''b'')]
   \<and> fst (snd (channelMessageHandler
              (channelEnvNoAppend [(''final'', Some ''hello!'')]) 5000
              ''spixi'' ''default'' walletMessage Map.empty Map.empty)) ''/store/uuid-1.jsonl''
       = Some [SessionHeader ''uuid-1'' 5000]"
  by (simp add: channel_eval)

text \<open>
  The message \<open>hi\<close> from \<open>wallet-abc\<close> on an empty store: the entry is created with
  send policy \<open>allow\<close>, the new transcript holds the header and one user line, the
  streamed block is ignored and \<open>onReply\<close> is called once with \<open>hello!\<close>.
\<close>

theorem channel_new_session_witness:
  "fst (channelMessageHandler (channelEnv [(''block'', Some ''thinking''), (''final'', Some ''hello!'')])
          5000 ''spixi'' ''default'' walletMessage Map.empty Map.empty) ''spixi:wallet-abc''
     = Some (newSessionEntry (channelEnv [(''block'', Some ''thinking''), (''final'', Some ''hello!'')])
               5000 ''spixi'' walletMessage)
   \<and> sendPolicy (newSessionEntry
          (channelEnv [(''block'', Some ''thinking''), (''final'', Some ''hello!'')])
          5000 ''spixi'' walletMessage) = Some ''allow''
   \<and> fst (snd (channelMessageHandler
          (channelEnv [(''block'', Some ''thinking''), (''final'', Some ''hello!'')])
          5000 ''spixi'' ''default'' walletMessage Map.empty Map.empty)) ''/store/uuid-1.jsonl''
     = Some [SessionHeader ''uuid-1'' 5000, MessageLine ''msg-1'' ''user'' ''hi'' 5000 None]
   \<and> snd (snd (channelMessageHandler
          (channelEnv [(''block'', Some ''thinking''), (''final'', Some ''hello!'')])
          5000 ''spixi'' ''default'' walletMessage Map.empty Map.empty))
     = [(''spixi'', ''default'', ''wallet-abc'', ''hello!'')]"
proof -
  define env where "env = channelEnv [(''block'', Some ''thinking''), (''final'', Some ''hello!'')]"
  define result where
    "result = channelMessageHandler env 5000 ''spixi'' ''default'' walletMessage Map.empty Map.empty"
  have f: "resolveSessionKey env ''spixi'' (msg_from walletMessage) = ''spixi:wallet-abc''"
    "resolveGatewaySessionStoreTarget env ''spixi:wallet-abc''
       = \<lparr>storePath = ''/store/sessions.json'', storeKeys = [''spixi:wallet-abc'']\<rparr>"
    "randomUUID env = ''uuid-1''" "randomMessageId env = ''msg-1''"
    "transcriptPathOf env ''/store/sessions.json'' ''uuid-1'' = ''/store/uuid-1.jsonl''"
    "canCreate env ''/store/uuid-1.jsonl''" "canAppend env ''/store/uuid-1.jsonl''"
    "\<not> dispatchThrows env" "hasOnReply env"
    "collectFinal (deliveries env) = [''hello!'']"
    "msg_from walletMessage = ''wallet-abc''" "msg_text walletMessage = ''hi''"
    by (simp_all add: env_def channelEnv_def walletMessage_def trim_def isWhiteSpace_def)
  note t = channel_new_session[of "''spixi:wallet-abc''" env "''spixi''" walletMessage
      "\<lparr>storePath = ''/store/sessions.json'', storeKeys = [''spixi:wallet-abc'']\<rparr>"
      Map.empty "''spixi:wallet-abc''" "''/store/uuid-1.jsonl''" result 5000 "''default''"
      Map.empty]
  have h: "fst result = [''spixi:wallet-abc'' \<mapsto> newSessionEntry env 5000 ''spixi'' walletMessage]
       \<and> sendPolicy (newSessionEntry env 5000 ''spixi'' walletMessage) = Some ''allow''
       \<and> fst (snd result) = [''/store/uuid-1.jsonl'' \<mapsto>
             [SessionHeader ''uuid-1'' 5000, MessageLine ''msg-1'' ''user'' ''hi'' 5000 None]]
       \<and> snd (snd result) = [(''spixi'', ''default'', ''wallet-abc'', ''hello!'')]"
    using t f result_def by simp
  then show ?thesis unfolding result_def env_def by simp
qed

end
